theory Spec2Isabelle
  imports Main "HOL-Library.AList"
begin

section \<open>Python values used by the game pack\<close>

text \<open>
  Python strings are modelled by their UTF-8 encoding (a \<open>char\<close> is a byte), Python's
  unbounded integers by \<open>int\<close>, and exceptions by values of \<open>py_error\<close>: a function that
  may raise returns \<open>py_error + 'a\<close>, with \<open>Inl\<close> for the exception.
\<close>

datatype py_error = ValueError | UnboundLocalError | OverflowError

definition digit_char :: "nat \<Rightarrow> char" where
  "digit_char d = char_of (48 + d)"

fun str_nat :: "nat \<Rightarrow> string" where
  "str_nat n = (if n < 10 then [digit_char n] else str_nat (n div 10) @ [digit_char (n mod 10)])"

declare str_nat.simps [simp del]

definition str_int :: "int \<Rightarrow> string" where
  \<comment> \<open>\<open>str(i)\<close>, also what an f-string writes for \<open>{i}\<close>\<close>
  "str_int i = (if i < 0 then CHR ''-'' # str_nat (nat (- i)) else str_nat (nat i))"

definition utf8 :: "nat \<Rightarrow> string" where
  "utf8 n =
     (if n < 0x80 then [char_of n]
      else if n < 0x800 then [char_of (0xC0 + n div 64), char_of (0x80 + n mod 64)]
      else if n < 0x10000 then
        [char_of (0xE0 + n div 4096), char_of (0x80 + (n div 64) mod 64), char_of (0x80 + n mod 64)]
      else
        [char_of (0xF0 + n div 262144), char_of (0x80 + (n div 4096) mod 64),
         char_of (0x80 + (n div 64) mod 64), char_of (0x80 + n mod 64)])"

definition py_chr :: "int \<Rightarrow> py_error + string" where
  \<comment> \<open>\<open>chr(i)\<close>: a one-character string; \<open>OverflowError\<close> when \<open>i\<close> is not a C \<open>int\<close>,
      \<open>ValueError\<close> when it is one outside \<open>range(0x110000)\<close>\<close>
  "py_chr i =
     (if i < - 2147483648 \<or> 2147483647 < i then Inl OverflowError
      else if 0 \<le> i \<and> i \<le> 0x10FFFF then Inr (utf8 (nat i))
      else Inl ValueError)"

section \<open>Game configuration\<close>

text \<open>
  \<open>GameConfig\<close> is declared outside the pack. The pack reads \<open>grid["rows"]\<close>,
  \<open>grid["cols"]\<close>, \<open>rules["win_tile"]\<close>, \<open>rules["snakes"]\<close> and \<open>rules["ladders"]\<close>; the
  record holds these values after the \<open>int(...)\<close> conversions the pack applies, the two
  redirection tables being the dictionaries \<open>{int(k): int(v)}\<close> it builds.
  \<open>tile_color_info\<close> stands for \<open>get_tile_color_info(tile, game_config)\<close>, which reads the
  configuration only.
\<close>

record game_config =
  grid_rows :: int
  grid_cols :: int
  rules_win_tile :: int
  rules_snakes :: "int \<rightharpoonup> int"
  rules_ladders :: "int \<rightharpoonup> int"
  tile_color_info :: "int \<Rightarrow> string option"

section \<open>Board coordinates\<close>

definition tile_number_to_alphanumeric :: "int \<Rightarrow> game_config \<Rightarrow> py_error + string option" where
  "tile_number_to_alphanumeric tile_num game_config =
     (if tile_num < 1 then Inr None
      else
        let rows = grid_rows game_config;
            cols = grid_cols game_config;
            max_tile = rows * cols
        in if tile_num > max_tile then Inr None
           else
             let row = ((tile_num - 1) div cols) + 1;
                 position_in_row = ((tile_num - 1) mod cols) + 1;
                 column = (if row mod 2 = 1 then position_in_row else cols - position_in_row + 1)
             in case py_chr (65 + column - 1) of
                  Inl e \<Rightarrow> Inl e
                | Inr col_letter \<Rightarrow> Inr (Some (col_letter @ str_int row)))"

definition is_digit :: "char \<Rightarrow> bool" where
  "is_digit c = (48 \<le> (of_char c :: nat) \<and> (of_char c :: nat) \<le> 57)"

definition is_upper_letter :: "char \<Rightarrow> bool" where
  "is_upper_letter c = (65 \<le> (of_char c :: nat) \<and> (of_char c :: nat) \<le> 90)"

definition parse_nat :: "string \<Rightarrow> nat" where
  "parse_nat ds = foldl (\<lambda>acc d. acc * 10 + (of_char d - 48)) 0 ds"

definition parse_alphanumeric_coordinate :: "string \<Rightarrow> (int \<times> int) option" where
  \<comment> \<open>Modelled from the spec: \<open>tfbot.game_board.parse_alphanumeric_coordinate\<close> is not part of
      the sources at hand. The spec writes coordinates as \<open>A1..J10\<close>: one column letter
      (\<open>A\<close> is column 1) followed by the decimal row number; the result is the pair
      (column index, row index), both counted from 1, and \<open>None\<close> for any other text.\<close>
  "parse_alphanumeric_coordinate coord =
     (case coord of
        [] \<Rightarrow> None
      | c # ds \<Rightarrow>
          if is_upper_letter c \<and> ds \<noteq> [] \<and> list_all is_digit ds
          then Some (int (of_char c) - 64, int (parse_nat ds))
          else None)"

definition alphanumeric_to_tile_number :: "string \<Rightarrow> game_config \<Rightarrow> int option" where
  "alphanumeric_to_tile_number coord game_config =
     (case parse_alphanumeric_coordinate coord of
        None \<Rightarrow> None
      | Some (column_index_1, row_index_1) \<Rightarrow>
          let cols = grid_cols game_config;
              position_in_row =
                (if row_index_1 mod 2 = 1 then column_index_1 else cols - column_index_1 + 1)
          in Some (((row_index_1 - 1) * cols) + position_in_row))"


section \<open>Session state\<close>

text \<open>
  \<open>GamePlayer\<close>, \<open>TransformationState\<close> and \<open>GameState\<close> are declared outside the sources
  at hand; the records hold the attributes that the modelled functions read or write. A
  participant is identified by the Discord user id, the key of every dictionary. Python
  dictionaries are association lists in insertion order, read with \<open>map_of\<close> and written
  with \<open>AList.update\<close> (an existing key keeps its place, a new key goes to the end) and
  \<open>AList.delete\<close>.
\<close>

type_synonym user_id = nat

record game_player =
  character_name :: "string option"
  grid_position :: "string option"
  background_id :: "int option"
  outfit_name :: "string option"

text \<open>
  \<open>owner_fields\<close> stands for the attributes that the swap functions copy from the old state
  of the same user without looking at them (\<open>guild_id\<close>, \<open>original_nick\<close>, \<open>started_at\<close>,
  \<open>expires_at\<close>, \<open>duration_label\<close>, \<open>avatar_applied\<close>, \<open>original_display_name\<close>,
  \<open>is_pillow\<close>).
\<close>

record transformation_state =
  state_user_id :: user_id
  state_character_name :: string
  character_folder :: string
  character_avatar_path :: string
  character_message :: string
  is_inanimate :: bool
  inanimate_responses :: "string list"
  form_owner_user_id :: "user_id option"
  identity_display_name :: "string option"
  owner_fields :: string

text \<open>
  The dictionary \<open>game_state._pack_data\<close> created by \<open>get_game_data\<close>. The values of the
  four character dictionaries are optional because the pack stores \<open>None\<close> in them. The keys
  \<open>game_ended\<close> and \<open>removed_player_positions\<close> are added later by the code; they are only
  read through \<open>data.get(key, default)\<close> or after a membership test, so an absent key is
  the default value (\<open>False\<close>, the empty dictionary).
\<close>

record pack_data =
  tile_numbers :: "(user_id \<times> int) list"
  transformation_counts :: "(user_id \<times> int option) list"
  original_characters :: "(user_id \<times> string option) list"
  real_body_characters :: "(user_id \<times> string option) list"
  mind_changed :: "(user_id \<times> bool option) list"
  turn_order :: "user_id list"
  player_numbers :: "(user_id \<times> int) list"
  current_turn_index :: int
  players_rolled_this_turn :: "user_id list"
  winners :: "user_id list"
  players_reached_end_this_turn :: "user_id list"
  goal_reached_turn :: "(user_id \<times> int) list"
  forfeited_players :: "user_id list"
  game_ended :: bool
  removed_player_positions :: "(user_id \<times> string option) list"

record game_state =
  players :: "(user_id \<times> game_player) list"
  player_states :: "(user_id \<times> transformation_state) list"
  turn_count :: int
  is_locked :: bool
  pack :: pack_data

definition has_key :: "('k \<times> 'v) list \<Rightarrow> 'k \<Rightarrow> bool" where
  \<comment> \<open>\<open>k in d\<close>\<close>
  "has_key d k = (map_of d k \<noteq> None)"

definition tile_of :: "pack_data \<Rightarrow> user_id \<Rightarrow> int" where
  \<comment> \<open>\<open>data['tile_numbers'].get(user_id, 1)\<close>\<close>
  "tile_of data uid = (case map_of (tile_numbers data) uid of None \<Rightarrow> 1 | Some t \<Rightarrow> t)"

definition set_grid_position :: "user_id \<Rightarrow> string \<Rightarrow> game_state \<Rightarrow> game_state" where
  \<comment> \<open>\<open>player.grid_position = pos\<close>, where \<open>player\<close> is the object stored in
      \<open>game_state.players\<close> under its user id (the callers pass that object)\<close>
  "set_grid_position uid pos gs =
     gs\<lparr>players := AList.map_entry uid (\<lambda>p. p\<lparr>grid_position := Some pos\<rparr>) (players gs)\<rparr>"

section \<open>Responses of the pack\<close>

text \<open>
  The pack answers with text. The lines it writes itself are strings; the literals of the
  source file begin with the characters U+F8FF, U+00FC and two more, written here as their
  UTF-8 bytes. The announcement returned by \<open>check_win_condition\<close> is a long formatted text
  naming every participant: it is represented by a value holding what decides it (the
  winners, or the participants who newly reached the goal, with the goal tile and the turn
  number). The result of \<open>"\n".join(message_parts)\<close> is represented by the list of parts.
\<close>

datatype win_message =
    GameOverWinner user_id
  | GameOverWinners "user_id list" int
  | GoalReached "user_id list" int int

datatype message_part = Line string | Announcement win_message

definition icon_party :: string where
  "icon_party = [CHR 0xEF, CHR 0xA3, CHR 0xBF, CHR 0xC3, CHR 0xBC, CHR 0xC3, CHR 0xA9, CHR 0xC3, CHR 0xA2]"

definition icon_sad :: string where
  "icon_sad = [CHR 0xEF, CHR 0xA3, CHR 0xBF, CHR 0xC3, CHR 0xBC, CHR 0xC3, CHR 0xB2, CHR 0xC3, CHR 0xAE]"

definition icon_snake :: string where
  "icon_snake = [CHR 0xEF, CHR 0xA3, CHR 0xBF, CHR 0xC3, CHR 0xBC, CHR 0xC3, CHR 0xAA, CHR 0xC3, CHR 0xA7]"

definition icon_ladder :: string where
  "icon_ladder = [CHR 0xEF, CHR 0xA3, CHR 0xBF, CHR 0xC3, CHR 0xBC, CHR 0xE2, CHR 0x84, CHR 0xA2, CHR 0xC3, CHR 0xBA]"

definition msg_already_won :: string where
  "msg_already_won = icon_party @
     '' You've already won! You cannot roll dice anymore. The game continues for other players.''"

definition msg_forfeited :: string where
  "msg_forfeited = icon_sad @
     '' You've forfeited! You cannot roll dice anymore. The game continues for other players.''"

definition msg_reached_goal :: "int \<Rightarrow> string" where
  "msg_reached_goal win_tile = icon_party @ '' You've reached the goal (tile '' @ str_int win_tile @
     '')! You cannot roll dice anymore. The game continues for other players.''"

definition msg_already_rolled :: string where
  "msg_already_rolled = ''You've already rolled this turn! Wait for the turn summary.''"

definition msg_all_rolled :: string where
  "msg_all_rolled = ''All players have rolled! Turn summary should be shown.''"

definition msg_not_your_turn :: "string \<Rightarrow> string \<Rightarrow> string" where
  "msg_not_your_turn next_player_num next_player_name =
     ''It's not your turn yet! Waiting for Player '' @ next_player_num @ '' ('' @
     next_player_name @ '') to roll.''"

definition msg_moved :: "int \<Rightarrow> string" where
  "msg_moved new_tile = ''Moved to tile '' @ str_int new_tile"

definition msg_snake :: "int \<Rightarrow> string" where
  "msg_snake tail_tile = icon_snake @ '' Snake! Slid down to tile '' @ str_int tail_tile"

definition msg_ladder :: "int \<Rightarrow> string" where
  "msg_ladder top_tile = icon_ladder @ '' Ladder! Climbed up to tile '' @ str_int top_tile"


section \<open>Turn engine of the Snakes and Ladders pack\<close>

subsection \<open>Win detection\<close>

text \<open>
  One round of the loop of \<open>check_win_condition\<close> over \<open>data['tile_numbers'].items()\<close>.
  The second component collects \<open>new_goal_reachers_this_turn\<close>.
\<close>

definition goal_step ::
  "int \<Rightarrow> int \<Rightarrow> user_id \<times> int \<Rightarrow> pack_data \<times> user_id list \<Rightarrow> pack_data \<times> user_id list" where
  "goal_step win_tile current_turn item acc =
     (case item of (uid, tile_num) \<Rightarrow>
      case acc of (data, new_goal_reachers) \<Rightarrow>
        if tile_num \<ge> win_tile then
          let stamped = has_key (goal_reached_turn data) uid;
              data1 = (if stamped then data
                       else data\<lparr>goal_reached_turn :=
                              AList.update uid current_turn (goal_reached_turn data)\<rparr>);
              new1 = (if stamped then new_goal_reachers else new_goal_reachers @ [uid]);
              data2 = (if uid \<in> set (winners data1) then data1
                       else data1\<lparr>winners := winners data1 @ [uid],
                              players_reached_end_this_turn :=
                                (if uid \<in> set (players_reached_end_this_turn data1)
                                 then players_reached_end_this_turn data1
                                 else players_reached_end_this_turn data1 @ [uid])\<rparr>)
          in (data2, new1)
        else (data, new_goal_reachers))"

definition earliest_winners :: "(user_id \<times> int) list \<Rightarrow> user_id list" where
  \<comment> \<open>\<open>[user_id for user_id, turn_num in goal_reached_turn.items() if turn_num == earliest_turn]\<close>
      with \<open>earliest_turn = min(goal_reached_turn.values())\<close>\<close>
  "earliest_winners reached =
     map fst (filter (\<lambda>item. snd item = min_list (map snd reached)) reached)"

definition check_win_condition ::
  "game_state \<Rightarrow> game_config \<Rightarrow> py_error + (game_state \<times> win_message option \<times> bool)" where
  "check_win_condition gs game_config =
     (let win_tile = rules_win_tile game_config;
          current_turn = turn_count gs;
          looped = fold (goal_step win_tile current_turn) (tile_numbers (pack gs)) (pack gs, []);
          data = fst looped;
          new_goal_reachers = snd looped;
          all_at_end = list_all (\<lambda>item. snd item \<ge> win_tile) (tile_numbers data)
      in if all_at_end then
           if \<not> game_ended data then
             let data1 = data\<lparr>game_ended := True\<rparr>
             in if goal_reached_turn data1 \<noteq> [] then
                  let earliest_turn = min_list (map snd (goal_reached_turn data1));
                      ws = earliest_winners (goal_reached_turn data1);
                      data2 = data1\<lparr>winners := ws\<rparr>
                  in if length ws = 1
                     then Inr (gs\<lparr>pack := data2\<rparr>, Some (GameOverWinner (hd ws)), True)
                     else Inr (gs\<lparr>pack := data2\<rparr>, Some (GameOverWinners ws earliest_turn), True)
                else
                  let ws = map fst (tile_numbers data1);
                      data2 = data1\<lparr>winners := ws\<rparr>
                  in if length ws = 1
                     then Inr (gs\<lparr>pack := data2\<rparr>, Some (GameOverWinner (hd ws)), True)
                     else Inl UnboundLocalError
           else Inr (gs\<lparr>pack := data\<rparr>, None, True)
         else if new_goal_reachers \<noteq> []
           then Inr (gs\<lparr>pack := data\<rparr>,
                     Some (GoalReached new_goal_reachers win_tile current_turn), False)
           else Inr (gs\<lparr>pack := data\<rparr>, None, False))"

subsection \<open>Whose roll is next\<close>

text \<open>The search loop of \<open>on_dice_rolled\<close> over \<open>data['turn_order']\<close>.\<close>

fun next_player_search :: "game_state \<Rightarrow> int \<Rightarrow> user_id list \<Rightarrow> user_id option" where
  "next_player_search gs win_tile [] = None"
| "next_player_search gs win_tile (user_id # rest) =
     (if \<not> has_key (players gs) user_id then next_player_search gs win_tile rest
      else if user_id \<in> set (players_rolled_this_turn (pack gs))
        then next_player_search gs win_tile rest
      else if user_id \<in> set (forfeited_players (pack gs))
        then next_player_search gs win_tile rest
      else if tile_of (pack gs) user_id \<ge> win_tile then next_player_search gs win_tile rest
      else Some user_id)"

type_synonym roll_result = "message_part list \<times> bool \<times> string option \<times> bool"

definition player_number_text :: "pack_data \<Rightarrow> user_id \<Rightarrow> string" where
  \<comment> \<open>\<open>data.get('player_numbers', {}).get(user_id, "?")\<close> as an f-string writes it\<close>
  "player_number_text data uid =
     (case map_of (player_numbers data) uid of None \<Rightarrow> ''?'' | Some n \<Rightarrow> str_int n)"

definition turn_check :: "game_state \<Rightarrow> user_id \<Rightarrow> int \<Rightarrow> roll_result option" where
  \<comment> \<open>the block under \<open>if data['turn_order']:\<close>; \<open>None\<close> when the roll goes on\<close>
  "turn_check gs uid win_tile =
     (if turn_order (pack gs) \<noteq> [] then
        (case next_player_search gs win_tile (turn_order (pack gs)) of
           None \<Rightarrow> Some ([Line msg_all_rolled], False, None, True)
         | Some next_player_id \<Rightarrow>
             if uid \<noteq> next_player_id then
               let next_player_num = player_number_text (pack gs) next_player_id;
                   next_player_name =
                     (case map_of (players gs) next_player_id of
                        None \<Rightarrow> ''Player '' @ next_player_num
                      | Some next_player \<Rightarrow>
                          (case character_name next_player of
                             None \<Rightarrow> ''Player '' @ next_player_num
                           | Some n \<Rightarrow> if n \<noteq> [] then n else ''Player '' @ next_player_num))
               in Some ([Line (msg_not_your_turn next_player_num next_player_name)],
                        False, None, False)
             else None)
      else None)"

definition roll_rejection :: "game_state \<Rightarrow> user_id \<Rightarrow> game_config \<Rightarrow> roll_result option" where
  \<comment> \<open>the checks of \<open>on_dice_rolled\<close> that return before anything is written\<close>
  "roll_rejection gs uid game_config =
     (let data = pack gs;
          win_tile = rules_win_tile game_config
      in if uid \<in> set (winners data) then Some ([Line msg_already_won], False, None, False)
         else if uid \<in> set (forfeited_players data)
           then Some ([Line msg_forfeited], False, None, False)
         else if tile_of data uid \<ge> win_tile
           then Some ([Line (msg_reached_goal win_tile)], False, None, False)
         else if uid \<in> set (players_rolled_this_turn data)
           then Some ([Line msg_already_rolled], False, None, False)
         else turn_check gs uid win_tile)"

subsection \<open>Movement\<close>

definition set_tile :: "user_id \<Rightarrow> int \<Rightarrow> game_state \<Rightarrow> game_state" where
  \<comment> \<open>\<open>data['tile_numbers'][player.user_id] = tile\<close>\<close>
  "set_tile uid tile gs =
     gs\<lparr>pack := (pack gs)\<lparr>tile_numbers := AList.update uid tile (tile_numbers (pack gs))\<rparr>\<rparr>"

definition update_position ::
  "user_id \<Rightarrow> int \<Rightarrow> game_config \<Rightarrow> game_state \<Rightarrow> py_error + game_state" where
  \<comment> \<open>\<open>new_pos = tile_number_to_alphanumeric(tile, game_config)\<close>, then
      \<open>if new_pos: player.grid_position = new_pos\<close>\<close>
  "update_position uid tile game_config gs =
     (case tile_number_to_alphanumeric tile game_config of
        Inl e \<Rightarrow> Inl e
      | Inr None \<Rightarrow> Inr gs
      | Inr (Some new_pos) \<Rightarrow> Inr (if new_pos \<noteq> [] then set_grid_position uid new_pos gs else gs))"

definition apply_redirection ::
  "user_id \<Rightarrow> int \<Rightarrow> game_config \<Rightarrow> game_state \<Rightarrow>
     py_error + (game_state \<times> message_part list \<times> int)" where
  \<comment> \<open>the snake check and, under \<open>elif\<close>, the ladder check on the tile landed on; the
      result holds \<open>message_parts\<close> and \<open>final_tile\<close>\<close>
  "apply_redirection uid new_tile game_config gs =
     (case rules_snakes game_config new_tile of
        Some tail_tile \<Rightarrow>
          (case update_position uid tail_tile game_config (set_tile uid tail_tile gs) of
             Inl e \<Rightarrow> Inl e
           | Inr gs' \<Rightarrow> Inr (gs', [Line (msg_moved new_tile), Line (msg_snake tail_tile)], tail_tile))
      | None \<Rightarrow>
          (case rules_ladders game_config new_tile of
             Some top_tile \<Rightarrow>
               (case update_position uid top_tile game_config (set_tile uid top_tile gs) of
                  Inl e \<Rightarrow> Inl e
                | Inr gs' \<Rightarrow>
                    Inr (gs', [Line (msg_moved new_tile), Line (msg_ladder top_tile)], top_tile))
           | None \<Rightarrow> Inr (gs, [Line (msg_moved new_tile)], new_tile)))"

definition is_turn_complete :: "game_state \<Rightarrow> int \<Rightarrow> bool" where
  "is_turn_complete gs win_tile =
     (if turn_order (pack gs) \<noteq> [] then
        let active_players =
              filter (\<lambda>uid. has_key (players gs) uid \<and> uid \<notin> set (forfeited_players (pack gs)) \<and>
                            tile_of (pack gs) uid < win_tile)
                     (turn_order (pack gs));
            active_players_rolled =
              filter (\<lambda>uid. uid \<in> set active_players) (players_rolled_this_turn (pack gs))
        in if active_players \<noteq> [] then length active_players_rolled \<ge> length active_players
           else True
      else False)"

definition resolve_roll ::
  "game_state \<Rightarrow> user_id \<Rightarrow> int \<Rightarrow> game_config \<Rightarrow> py_error + (game_state \<times> roll_result)" where
  \<comment> \<open>\<open>on_dice_rolled\<close> from \<open># Get current tile\<close> to its last line\<close>
  "resolve_roll gs uid dice_result game_config =
     (let win_tile = rules_win_tile game_config;
          current_tile = tile_of (pack gs) uid;
          tentative = current_tile + dice_result;
          new_tile = (if tentative \<ge> win_tile then win_tile else tentative)
      in case update_position uid new_tile game_config (set_tile uid new_tile gs) of
           Inl e \<Rightarrow> Inl e
         | Inr gs1 \<Rightarrow>
             (case apply_redirection uid new_tile game_config gs1 of
                Inl e \<Rightarrow> Inl e
              | Inr (gs2, parts, final_tile) \<Rightarrow>
                  let parts1 =
                        (if 2 \<le> final_tile \<and> final_tile \<le> 99 then
                           (case tile_color_info game_config final_tile of
                              None \<Rightarrow> parts
                            | Some info_msg \<Rightarrow> if info_msg \<noteq> [] then parts @ [Line info_msg] else parts)
                         else parts);
                      rolled = players_rolled_this_turn (pack gs2);
                      gs3 = (if uid \<in> set rolled then gs2
                             else gs2\<lparr>pack := (pack gs2)\<lparr>players_rolled_this_turn := rolled @ [uid]\<rparr>\<rparr>);
                      turn_complete = is_turn_complete gs3 win_tile
                  in (case check_win_condition gs3 game_config of
                        Inl e \<Rightarrow> Inl e
                      | Inr (gs4, win_msg, ended) \<Rightarrow>
                          let parts2 = (case win_msg of None \<Rightarrow> parts1
                                        | Some w \<Rightarrow> parts1 @ [Announcement w]);
                              gs5 = gs4\<lparr>pack := (pack gs4)\<lparr>game_ended := ended\<rparr>\<rparr>
                          in Inr (gs5, (parts2, True, None, turn_complete)))))"

definition on_dice_rolled ::
  "game_state \<Rightarrow> user_id \<Rightarrow> int \<Rightarrow> game_config \<Rightarrow> py_error + (game_state \<times> roll_result)" where
  "on_dice_rolled gs uid dice_result game_config =
     (case roll_rejection gs uid game_config of
        Some rejected \<Rightarrow> Inr (gs, rejected)
      | None \<Rightarrow> resolve_roll gs uid dice_result game_config)"

definition advance_turn :: "game_state \<Rightarrow> game_state" where
  "advance_turn gs =
     gs\<lparr>pack := (pack gs)\<lparr>players_rolled_this_turn := [], players_reached_end_this_turn := []\<rparr>\<rparr>"


section \<open>Forfeiting\<close>



section \<open>Swap coordinator\<close>

definition dict_get :: "('k \<times> 'v option) list \<Rightarrow> 'k \<Rightarrow> 'v option" where
  \<comment> \<open>\<open>mapping.get(key)\<close> on a dictionary whose values may be \<open>None\<close>\<close>
  "dict_get mapping k = (case map_of mapping k of None \<Rightarrow> None | Some v \<Rightarrow> v)"

definition swap_dict_entry ::
  "user_id \<Rightarrow> user_id \<Rightarrow> (user_id \<times> 'v option) list \<Rightarrow> (user_id \<times> 'v option) list" where
  "swap_dict_entry user_id1 user_id2 mapping =
     (let val1 = dict_get mapping user_id1;
          val2 = dict_get mapping user_id2
      in if val1 = None \<and> val2 = None then mapping
         else AList.update user_id2 val1 (AList.update user_id1 val2 mapping))"

definition swap_pack_player_metadata :: "game_state \<Rightarrow> user_id \<Rightarrow> user_id \<Rightarrow> game_state" where
  "swap_pack_player_metadata gs user_id1 user_id2 =
     gs\<lparr>pack := (pack gs)
        \<lparr>original_characters := swap_dict_entry user_id1 user_id2 (original_characters (pack gs)),
         real_body_characters := swap_dict_entry user_id1 user_id2 (real_body_characters (pack gs)),
         transformation_counts := swap_dict_entry user_id1 user_id2 (transformation_counts (pack gs)),
         mind_changed := swap_dict_entry user_id1 user_id2 (mind_changed (pack gs))\<rparr>\<rparr>"

definition on_character_assigned :: "game_state \<Rightarrow> user_id \<Rightarrow> string option \<Rightarrow> game_state" where
  "on_character_assigned gs uid name =
     (if dict_get (original_characters (pack gs)) uid = None
      then gs\<lparr>pack := (pack gs)\<lparr>original_characters :=
                  AList.update uid name (original_characters (pack gs))\<rparr>\<rparr>
      else gs)"

definition swap_tile_numbers :: "game_state \<Rightarrow> user_id \<Rightarrow> user_id \<Rightarrow> game_state" where
  \<comment> \<open>both swap paths exchange the two tile numbers when both users have one\<close>
  "swap_tile_numbers gs user_id1 user_id2 =
     (case (map_of (tile_numbers (pack gs)) user_id1, map_of (tile_numbers (pack gs)) user_id2) of
        (Some tile1, Some tile2) \<Rightarrow>
          gs\<lparr>pack := (pack gs)\<lparr>tile_numbers :=
                AList.update user_id2 tile1 (AList.update user_id1 tile2 (tile_numbers (pack gs)))\<rparr>\<rparr>
      | _ \<Rightarrow> gs)"

definition id_or :: "user_id option \<Rightarrow> user_id \<Rightarrow> user_id" where
  \<comment> \<open>\<open>x or y\<close> for an optional user id: \<open>None\<close> and 0 are false\<close>
  "id_or x y = (case x of None \<Rightarrow> y | Some i \<Rightarrow> if i = 0 then y else i)"

definition str_or :: "string option \<Rightarrow> string \<Rightarrow> string" where
  \<comment> \<open>\<open>x or y\<close> for an optional string: \<open>None\<close> and the empty string are false\<close>
  "str_or x y = (case x of None \<Rightarrow> y | Some t \<Rightarrow> if t = [] then y else t)"

definition exchange_character ::
  "transformation_state \<Rightarrow> transformation_state \<Rightarrow> user_id \<Rightarrow> transformation_state" where
  \<comment> \<open>the \<open>TransformationState(...)\<close> both swap paths build for the user of \<open>mine\<close>: the
      character attributes of \<open>theirs\<close>, everything else from \<open>mine\<close>, the given form owner\<close>
  "exchange_character mine theirs owner =
     mine\<lparr>state_character_name := state_character_name theirs,
          character_folder := character_folder theirs,
          character_avatar_path := character_avatar_path theirs,
          character_message := character_message theirs,
          is_inanimate := is_inanimate theirs,
          inanimate_responses := inanimate_responses theirs,
          form_owner_user_id := Some owner,
          identity_display_name :=
            Some (str_or (identity_display_name mine) (state_character_name mine))\<rparr>"

text \<open>
  The body of \<open>command_swap\<close> once the caller is known to be the GM and both members are
  resolved. The two player objects are those stored under the two ids.
\<close>

definition command_swap :: "game_state \<Rightarrow> user_id \<Rightarrow> user_id \<Rightarrow> game_state" where
  "command_swap gs id1 id2 =
     (case (map_of (players gs) id1, map_of (players gs) id2) of
        (Some player1, Some player2) \<Rightarrow>
          let char1 = character_name player1;
              char2 = character_name player2;
              player1' = player1\<lparr>character_name := char2,
                                grid_position := grid_position player2,
                                background_id := background_id player2,
                                outfit_name := outfit_name player2\<rparr>;
              player2' = player2\<lparr>character_name := char1,
                                grid_position := grid_position player1,
                                background_id := background_id player1,
                                outfit_name := outfit_name player1\<rparr>;
              gs1 = gs\<lparr>players := AList.update id2 player2' (AList.update id1 player1' (players gs))\<rparr>;
              gs2 = (case (map_of (player_states gs1) id1, map_of (player_states gs1) id2) of
                       (Some state1, Some state2) \<Rightarrow>
                         let new_state1 = exchange_character state1 state2
                                            (id_or (form_owner_user_id state2) id2);
                             new_state2 = exchange_character state2 state1
                                            (id_or (form_owner_user_id state1) id1)
                         in gs1\<lparr>player_states :=
                                AList.update id2 new_state2
                                  (AList.update id1 new_state1 (player_states gs1))\<rparr>
                     | _ \<Rightarrow> gs1);
              gs3 = swap_tile_numbers gs2 id1 id2;
              gs4 = swap_pack_player_metadata gs3 id1 id2;
              gs5 = on_character_assigned gs4 id1 char2
          in on_character_assigned gs5 id2 char1
      | _ \<Rightarrow> gs)"

definition revert_swap_direct :: "game_state \<Rightarrow> user_id \<Rightarrow> user_id \<Rightarrow> game_state" where
  "revert_swap_direct gs user_id1 user_id2 =
     (case (map_of (players gs) user_id1, map_of (players gs) user_id2,
            map_of (player_states gs) user_id1, map_of (player_states gs) user_id2) of
        (Some player1, Some player2, Some state1, Some state2) \<Rightarrow>
          let char1 = character_name player1;
              char2 = character_name player2;
              player1' = player1\<lparr>character_name := char2,
                                grid_position := grid_position player2,
                                background_id := background_id player2\<rparr>;
              player2' = player2\<lparr>character_name := char1,
                                grid_position := grid_position player1,
                                background_id := background_id player1\<rparr>;
              gs1 = gs\<lparr>players :=
                       AList.update user_id2 player2' (AList.update user_id1 player1' (players gs))\<rparr>;
              new_state1 = exchange_character state1 state2 user_id1;
              new_state2 = exchange_character state2 state1 user_id2;
              gs2 = gs1\<lparr>player_states :=
                        AList.update user_id2 new_state2
                          (AList.update user_id1 new_state1 (player_states gs1))\<rparr>;
              gs3 = swap_tile_numbers gs2 user_id1 user_id2;
              gs4 = swap_pack_player_metadata gs3 user_id1 user_id2;
              gs5 = on_character_assigned gs4 user_id1 char2
          in on_character_assigned gs5 user_id2 char1
      | _ \<Rightarrow> gs)"

definition revert_swap_chain :: "game_state \<Rightarrow> (user_id \<times> user_id) list \<Rightarrow> game_state" where
  \<comment> \<open>\<open>for user_id1, user_id2 in reversed(swap_chain)\<close>\<close>
  "revert_swap_chain gs swap_chain =
     fold (\<lambda>pair g. revert_swap_direct g (fst pair) (snd pair)) (rev swap_chain) gs"

text \<open>
  The loop of \<open>_build_swap_chain\<close>; \<open>visited\<close> is the set of the source, kept as a list.
\<close>

function build_swap_chain_loop ::
  "(user_id \<times> transformation_state) list \<Rightarrow> user_id list \<Rightarrow> (user_id \<times> user_id) list \<Rightarrow>
     user_id \<Rightarrow> (user_id \<times> user_id) list" where
  "build_swap_chain_loop states visited chain current_id =
     (if current_id \<noteq> 0 \<and> current_id \<notin> set visited then
        (case map_of states current_id of
           None \<Rightarrow> chain
         | Some state \<Rightarrow>
             (case form_owner_user_id state of
                None \<Rightarrow> chain
              | Some other_id \<Rightarrow>
                  if other_id = 0 then chain
                  else if other_id = current_id then chain
                  else build_swap_chain_loop states (current_id # visited)
                         (if (current_id, other_id) \<notin> set chain \<and> (other_id, current_id) \<notin> set chain
                          then chain @ [(current_id, other_id)] else chain)
                         other_id))
      else chain)"
  by pat_completeness auto
termination
proof (relation "measure (\<lambda>(states, visited, chain, current_id). card (fst ` set states - set visited))")
  show "wf (measure (\<lambda>(states, visited, chain, current_id). card (fst ` set states - set visited)))"
    by simp
next
  fix states :: "(user_id \<times> transformation_state) list"
    and visited :: "user_id list" and chain :: "(user_id \<times> user_id) list"
    and current_id :: user_id and state :: transformation_state and other_id :: user_id
  assume a: "current_id \<noteq> 0 \<and> current_id \<notin> set visited"
    and b: "map_of states current_id = Some state"
  have "current_id \<in> fst ` set states"
    using b by (metis map_of_SomeD fst_conv image_eqI)
  then have "fst ` set states - set (current_id # visited) \<subset> fst ` set states - set visited"
    using a by auto
  then have "card (fst ` set states - set (current_id # visited)) < card (fst ` set states - set visited)"
    by (intro psubset_card_mono) simp_all
  then show "((states, current_id # visited,
        if (current_id, other_id) \<notin> set chain \<and> (other_id, current_id) \<notin> set chain
        then chain @ [(current_id, other_id)] else chain, other_id),
       states, visited, chain, current_id)
      \<in> measure (\<lambda>(states, visited, chain, current_id). card (fst ` set states - set visited))"
    by simp
qed

declare build_swap_chain_loop.simps [simp del]

definition build_swap_chain :: "game_state \<Rightarrow> user_id \<Rightarrow> (user_id \<times> user_id) list" where
  "build_swap_chain gs start_user_id = build_swap_chain_loop (player_states gs) [] [] start_user_id"

text \<open>
  The steps on the pack's data that \<open>command_swap\<close> and \<open>_revert_swap_direct\<close> have in
  common, after the exchange of the two participants' fields: the tile numbers, the per-player
  metadata, and \<open>on_character_assigned\<close> for each of the two.
\<close>

definition swap_pack_effects ::
  "game_state \<Rightarrow> user_id \<Rightarrow> user_id \<Rightarrow> string option \<Rightarrow> string option \<Rightarrow> game_state" where
  "swap_pack_effects g id1 id2 char1 char2 =
     on_character_assigned
       (on_character_assigned (swap_pack_player_metadata (swap_tile_numbers g id1 id2) id1 id2) id1 char2)
       id2 char1"

section \<open>Command serializer\<close>

text \<open>
  The text of a message is a Python \<open>str\<close>: a list of code points. \<open>ascii\<close> writes the
  literals of the source.
\<close>

type_synonym py_str = "int list"

definition ascii :: "string \<Rightarrow> py_str" where
  "ascii s = map of_char s"

text \<open>
  A message as the transport delivers it. \<open>att_read\<close> is what \<open>await attachment.read()\<close>
  gives: the bytes, or \<open>None\<close> when the call raises. The captured dictionary
  \<open>message_data\<close> and the object \<open>QueuedMessage\<close> rebuilt from it are records. Stickers
  and embeds are captured by loops of the same shape into keys of their own and are left
  out, as are the guild and the \<open>info\<close> and \<open>debug\<close> lines of the log.
\<close>

type_synonym bytes = "nat list"

record attachment =
  att_filename :: string
  att_content_type :: "string option"
  att_read :: "bytes option"

record message =
  message_id :: nat
  message_author :: user_id
  author_bot :: bool
  message_content :: py_str
  message_channel :: nat
  message_reference :: "nat option"
  message_attachments :: "attachment list"

record attachment_data =
  data_filename :: string
  data_bytes :: bytes
  data_content_type :: "string option"

record message_data =
  data_content :: py_str
  data_author :: user_id
  data_channel :: nat
  data_reference :: "nat option"
  data_attachments :: "attachment_data list"
  data_id :: nat

record queued_message =
  queued_content :: py_str
  queued_author :: user_id
  queued_channel :: nat
  queued_reference :: "nat option"
  queued_attachments :: "attachment_data list"
  queued_attachment_data :: "attachment_data list"
  queued_id :: nat

datatype log_entry =
    EmptyBytesWhenQueuing string nat
  | DownloadFailed string nat
  | EmptyBytesWhenReplaying string nat
  | LockStillHeld nat
  | ReplayRaised nat

datatype drop_reason = NotHandled | ExceptionDuringReplay


text \<open>
  The part of the manager that the serializer uses. \<open>command_locks t\<close> tells whether the
  lock of thread \<open>t\<close> is held (a lock that was never created is free). \<open>replayed\<close> lists the
  calls \<open>handle_message(queued_message, command_invoked=False, is_queued=True)\<close> in the
  order they are made, \<open>deleted\<close> the calls of \<open>message.delete()\<close>, \<open>drop_warnings\<close> the
  calls of \<open>_warn_queue_drop\<close>.
\<close>

record serializer =
  command_locks :: "nat \<Rightarrow> bool"
  message_queues :: "(nat \<times> message_data list) list"
  log :: "log_entry list"
  deleted :: "nat list"
  drop_warnings :: "(drop_reason \<times> nat) list"
  replayed :: "queued_message list"

definition queue_of :: "serializer \<Rightarrow> nat \<Rightarrow> message_data list" where
  "queue_of s thread_id = (case map_of (message_queues s) thread_id of None \<Rightarrow> [] | Some q \<Rightarrow> q)"

subsection \<open>Invalid commands\<close>

text \<open>
  \<open>str.strip()\<close> and \<open>str.split()\<close> without arguments cut at the characters for which
  \<open>str.isspace()\<close> holds. Of \<open>split()\<close> only the first item is used, and whether there is
  one: \<open>first_word t\<close> is \<open>t.split()[0]\<close>, and it is empty exactly when \<open>t.split()\<close> is.
\<close>

definition is_space :: "int \<Rightarrow> bool" where
  "is_space c =
     ((0x09 \<le> c \<and> c \<le> 0x0D) \<or> (0x1C \<le> c \<and> c \<le> 0x20) \<or> c = 0x85 \<or> c = 0xA0 \<or>
      c = 0x1680 \<or> (0x2000 \<le> c \<and> c \<le> 0x200A) \<or> c = 0x2028 \<or> c = 0x2029 \<or>
      c = 0x202F \<or> c = 0x205F \<or> c = 0x3000)"

definition strip :: "py_str \<Rightarrow> py_str" where
  "strip t = rev (dropWhile is_space (rev (dropWhile is_space t)))"

definition first_word :: "py_str \<Rightarrow> py_str" where
  "first_word t = takeWhile (\<lambda>c. \<not> is_space c) (dropWhile is_space t)"

text \<open>
  \<open>str.lower()\<close> replaces every character by its lowercase mapping. For an ASCII character
  that is the ASCII lowercase letter. For any other character it is the full lowercase
  mapping of the Unicode character database, one to three characters, which for a capital
  sigma depends on its neighbours. The database is no part of the source: it is the
  parameter \<open>lowercase\<close>, which gives the mapping of the character at an index of a text.
\<close>

definition ascii_lower :: "int \<Rightarrow> int" where
  "ascii_lower c = (if 65 \<le> c \<and> c \<le> 90 then c + 32 else c)"

definition py_lower :: "(py_str \<Rightarrow> nat \<Rightarrow> py_str) \<Rightarrow> py_str \<Rightarrow> py_str" where
  "py_lower lowercase t =
     concat (map (\<lambda>i. if t ! i < 128 then [ascii_lower (t ! i)] else lowercase t i)
                 [0..<length t])"

definition valid_player_commands :: "py_str list" where
  "valid_player_commands =
     map ascii [''!dice'', ''!gamequit'', ''!players'', ''!help'', ''!rules'']"

text \<open>
  \<open>_is_invalid_command\<close>. The stripped content begins with \<open>!\<close>, so does its lowercase, and
  \<open>content.lower().split()[0]\<close> exists.
\<close>

definition is_invalid_command :: "(py_str \<Rightarrow> nat \<Rightarrow> py_str) \<Rightarrow> message \<Rightarrow> bool" where
  "is_invalid_command lowercase m =
     (if message_content m = [] \<or> take 1 (strip (message_content m)) \<noteq> ascii ''!'' then False
      else
        let content = strip (message_content m);
            cmd_lower = (if first_word content \<noteq> [] then first_word (py_lower lowercase content)
                         else [])
        in cmd_lower \<notin> set valid_player_commands)"

subsection \<open>Capturing a message while the lock is held\<close>

definition delete_message :: "message \<Rightarrow> serializer \<Rightarrow> serializer" where
  \<comment> \<open>\<open>await message.delete()\<close>; the \<open>discord.HTTPException\<close> it may raise is passed over\<close>
  "delete_message m s = s\<lparr>deleted := deleted s @ [message_id m]\<rparr>"

definition enqueue :: "nat \<Rightarrow> message_data \<Rightarrow> serializer \<Rightarrow> serializer" where
  \<comment> \<open>create the queue of the thread if there is none, then \<open>append\<close>\<close>
  "enqueue queue_id md s =
     s\<lparr>message_queues := AList.update queue_id (queue_of s queue_id @ [md]) (message_queues s)\<rparr>"

text \<open>
  The attachment loop of \<open>handle_message\<close>: an attachment that reads as zero bytes is
  logged and not stored; one whose read raises is logged and not stored.
\<close>

fun download_validated :: "nat \<Rightarrow> attachment list \<Rightarrow> attachment_data list \<times> log_entry list" where
  "download_validated mid [] = ([], [])"
| "download_validated mid (a # rest) =
     (let r = download_validated mid rest
      in case att_read a of
           None \<Rightarrow> (fst r, DownloadFailed (att_filename a) mid # snd r)
         | Some attachment_bytes \<Rightarrow>
             if attachment_bytes = []
             then (fst r, EmptyBytesWhenQueuing (att_filename a) mid # snd r)
             else (\<lparr>data_filename = att_filename a, data_bytes = attachment_bytes,
                     data_content_type = att_content_type a\<rparr> # fst r, snd r))"

text \<open>
  The attachment loop of \<open>_cache_and_delete_message\<close>: whatever is read is stored, also
  zero bytes; a read that raises is logged and not stored.
\<close>

fun download_unchecked :: "nat \<Rightarrow> attachment list \<Rightarrow> attachment_data list \<times> log_entry list" where
  "download_unchecked mid [] = ([], [])"
| "download_unchecked mid (a # rest) =
     (let r = download_unchecked mid rest
      in case att_read a of
           None \<Rightarrow> (fst r, DownloadFailed (att_filename a) mid # snd r)
         | Some attachment_bytes \<Rightarrow>
             (\<lparr>data_filename = att_filename a, data_bytes = attachment_bytes,
               data_content_type = att_content_type a\<rparr> # fst r, snd r))"

definition message_data_of :: "message \<Rightarrow> attachment_data list \<Rightarrow> message_data" where
  "message_data_of m attachment_data =
     \<lparr>data_content = message_content m, data_author = message_author m,
      data_channel = message_channel m, data_reference = message_reference m,
      data_attachments = attachment_data, data_id = message_id m\<rparr>"

text \<open>
  The block of \<open>handle_message\<close> under \<open>if not is_queued:\<close>, reached by a message that
  passed the checks before it. The result is \<open>Some True\<close> when the message was queued
  (\<open>return True\<close>) and \<open>None\<close> when the function goes on to process the message.
\<close>

definition handle_message_lock_check ::
  "serializer \<Rightarrow> message \<Rightarrow> bool \<Rightarrow> serializer \<times> bool option" where
  "handle_message_lock_check s m is_queued =
     (if \<not> is_queued then
        if author_bot m then (s, None)
        else
          let thread_id = message_channel m
          in if command_locks s thread_id then
               let downloaded = download_validated (message_id m) (message_attachments m);
                   md = message_data_of m (fst downloaded);
                   s1 = s\<lparr>log := log s @ snd downloaded\<rparr>;
                   s2 = delete_message m s1
               in (enqueue thread_id md s2, Some True)
             else (s, None)
      else (s, None))"

text \<open>
  \<open>_cache_and_delete_message\<close>. Every statement of its \<open>try\<close> block that can raise has a
  handler of its own (the read of an attachment, the deletion), so the outer handler that
  warns of a dropped message is never entered and is left out.
\<close>

definition cache_and_delete_message ::
  "(py_str \<Rightarrow> nat \<Rightarrow> py_str) \<Rightarrow> serializer \<Rightarrow> message \<Rightarrow> nat \<Rightarrow> nat option \<Rightarrow> serializer" where
  "cache_and_delete_message lowercase s m thread_id queue_thread_id =
     (if is_invalid_command lowercase m then delete_message m s
      else
        let queue_id = id_or queue_thread_id thread_id
        in if command_locks s queue_id then
             let downloaded = download_unchecked (message_id m) (message_attachments m);
                 md = message_data_of m (fst downloaded);
                 s1 = s\<lparr>log := log s @ snd downloaded\<rparr>;
                 s2 = delete_message m s1
             in enqueue queue_id md s2
           else delete_message m s)"

subsection \<open>Replaying the queue\<close>








text \<open>
  A message that has reached one of the two captures, the lock check of \<open>handle_message\<close>
  or \<open>_cache_and_delete_message\<close> in the thread of the message, and whose capture runs to
  its end with no other task in between.
\<close>

datatype arrival = AtLockCheck message | AtCache message

definition arrive :: "(py_str \<Rightarrow> nat \<Rightarrow> py_str) \<Rightarrow> arrival \<Rightarrow> serializer \<Rightarrow> serializer" where
  "arrive lowercase a s =
     (case a of
        AtLockCheck m \<Rightarrow> fst (handle_message_lock_check s m False)
      | AtCache m \<Rightarrow> cache_and_delete_message lowercase s m (message_channel m) None)"

subsection \<open>The way of a message to its capture\<close>







subsection \<open>Captures that other tasks interrupt\<close>

text \<open>
  Both captures test the lock first and append to the queue last, and in between they
  await: every \<open>attachment.read()\<close>, then \<open>message.delete()\<close>. Other tasks run while a
  capture is suspended there. A \<open>capture_task\<close> is a capture that has found the lock held
  and has not appended yet: \<open>Validated\<close> in the lock check of \<open>handle_message\<close>,
  \<open>Unchecked\<close> in \<open>_cache_and_delete_message\<close>, with the message and the id of the queue.
  The suspension points of one capture are taken together: the reads, the deletion and the
  append are one step. What other tasks could see in between is the order of the log and of
  the deletions.
\<close>

datatype capture_task = Validated message nat | Unchecked message nat




definition lock_check_begin :: "message \<Rightarrow> bool \<Rightarrow> serializer \<Rightarrow> capture_task option" where
  \<comment> \<open>the tests of the lock check, to \<open>if command_lock.locked():\<close>\<close>
  "lock_check_begin m is_queued s =
     (if \<not> is_queued then
        if author_bot m then None
        else
          let thread_id = message_channel m
          in if command_locks s thread_id then Some (Validated m thread_id) else None
      else None)"

definition cache_begin ::
  "(py_str \<Rightarrow> nat \<Rightarrow> py_str) \<Rightarrow> message \<Rightarrow> nat \<Rightarrow> nat option \<Rightarrow> serializer \<Rightarrow>
     serializer \<times> capture_task option" where
  \<comment> \<open>\<open>_cache_and_delete_message\<close> to \<open>if command_lock.locked():\<close>, and the branches that
      only delete\<close>
  "cache_begin lowercase m thread_id queue_thread_id s =
     (if is_invalid_command lowercase m then (delete_message m s, None)
      else
        let queue_id = id_or queue_thread_id thread_id
        in if command_locks s queue_id then (s, Some (Unchecked m queue_id))
           else (delete_message m s, None))"

definition complete_capture :: "capture_task \<Rightarrow> serializer \<Rightarrow> serializer" where
  \<comment> \<open>the rest of the capture: the reads, the deletion, the append\<close>
  "complete_capture task s =
     (case task of
        Validated m thread_id \<Rightarrow>
          let downloaded = download_validated (message_id m) (message_attachments m);
              md = message_data_of m (fst downloaded);
              s1 = s\<lparr>log := log s @ snd downloaded\<rparr>;
              s2 = delete_message m s1
          in enqueue thread_id md s2
      | Unchecked m queue_id \<Rightarrow>
          let downloaded = download_unchecked (message_id m) (message_attachments m);
              md = message_data_of m (fst downloaded);
              s1 = s\<lparr>log := log s @ snd downloaded\<rparr>;
              s2 = delete_message m s1
          in enqueue queue_id md s2)"










section \<open>The rules in the words of the spec\<close>

text \<open>
  The tile a roll lands on: the current tile plus the roll, clamped to the goal tile. The
  tile after the single redirection of a hazard or a shortcut (the target is taken as
  it is, whatever starts there). The line of the response that names the redirection.
  The participant whose move is next: the first entry of the turn list that is not
  forfeited, has not acted in this cycle and is below the goal tile.
\<close>

definition landing :: "game_config \<Rightarrow> int \<Rightarrow> int" where
  "landing cfg tile =
     (case rules_snakes cfg tile of
        Some tail_tile \<Rightarrow> tail_tile
      | None \<Rightarrow> (case rules_ladders cfg tile of Some top_tile \<Rightarrow> top_tile | None \<Rightarrow> tile))"

definition redirection_lines :: "game_config \<Rightarrow> int \<Rightarrow> message_part list" where
  "redirection_lines cfg tile =
     (case rules_snakes cfg tile of
        Some tail_tile \<Rightarrow> [Line (msg_snake tail_tile)]
      | None \<Rightarrow> (case rules_ladders cfg tile of Some top_tile \<Rightarrow> [Line (msg_ladder top_tile)] | None \<Rightarrow> []))"

definition clamped :: "game_state \<Rightarrow> user_id \<Rightarrow> int \<Rightarrow> game_config \<Rightarrow> int" where
  "clamped gs p r cfg = min (tile_of (pack gs) p + r) (rules_win_tile cfg)"


text \<open>Every participant's tile is at or past the goal tile.\<close>

definition all_at_goal :: "game_state \<Rightarrow> game_config \<Rightarrow> bool" where
  "all_at_goal gs cfg = list_all (\<lambda>item. snd item \<ge> rules_win_tile cfg) (tile_numbers (pack gs))"

text \<open>
  A forfeited participant who is out of the winner list, has no goal-arrival stamp and
  whose tile is below the goal tile.
\<close>

definition stays_out :: "user_id \<Rightarrow> game_config \<Rightarrow> game_state \<Rightarrow> bool" where
  "stays_out p cfg gs =
     (p \<in> set (forfeited_players (pack gs)) \<and> p \<notin> set (winners (pack gs)) \<and>
      \<not> has_key (goal_reached_turn (pack gs)) p \<and>
      list_all (\<lambda>item. fst item \<noteq> p \<or> snd item < rules_win_tile cfg) (tile_numbers (pack gs)))"

text \<open>The state a call returned with, if it returned.\<close>

definition result_state :: "py_error + (game_state \<times> 'a) \<Rightarrow> game_state option" where
  "result_state r = (case r of Inl e \<Rightarrow> None | Inr x \<Rightarrow> Some (fst x))"











section \<open>Concrete boards and sessions\<close>

text \<open>The coordinate of a column and a row as the spec writes it: \<open>A1\<close>, ..., \<open>J10\<close>.\<close>

definition coordinate_text :: "int \<Rightarrow> int \<Rightarrow> string" where
  "coordinate_text column row = char_of (nat (64 + column)) # str_int row"

text \<open>The board of the spec's example: 10 by 10, goal tile 100, one snake from 16 to 6.\<close>

definition classic_board :: game_config where
  "classic_board =
     \<lparr>grid_rows = 10, grid_cols = 10, rules_win_tile = 100, rules_snakes = [16 \<mapsto> 6],
      rules_ladders = Map.empty, tile_color_info = (\<lambda>tile. None)\<rparr>"

text \<open>A board of one row whose last column is beyond the last Unicode code point.\<close>

definition wide_board :: game_config where
  "wide_board =
     \<lparr>grid_rows = 1, grid_cols = 1114048, rules_win_tile = 1114048, rules_snakes = Map.empty,
      rules_ladders = Map.empty, tile_color_info = (\<lambda>tile. None)\<rparr>"

text \<open>A session of two participants on the classic board; participant 1 is on tile 10.\<close>

definition ann :: game_player where
  "ann = \<lparr>character_name = Some ''Ann'', grid_position = Some ''J1'', background_id = Some 1,
          outfit_name = Some ''red''\<rparr>"

definition bob :: game_player where
  "bob = \<lparr>character_name = Some ''Bob'', grid_position = Some ''C1'', background_id = Some 2,
          outfit_name = Some ''blue''\<rparr>"

definition example_pack :: pack_data where
  "example_pack =
     \<lparr>tile_numbers = [(1, 10), (2, 3)], transformation_counts = [(1, Some 0), (2, Some 0)],
      original_characters = [(1, Some ''Ann''), (2, Some ''Bob'')],
      real_body_characters = [(1, None), (2, None)],
      mind_changed = [(1, Some False), (2, Some False)], turn_order = [1, 2],
      player_numbers = [(1, 1), (2, 2)], current_turn_index = 0, players_rolled_this_turn = [],
      winners = [], players_reached_end_this_turn = [], goal_reached_turn = [],
      forfeited_players = [], game_ended = False, removed_player_positions = []\<rparr>"

definition example_session :: game_state where
  "example_session =
     \<lparr>players = [(1, ann), (2, bob)], player_states = [], turn_count = 0, is_locked = False,
      pack = example_pack\<rparr>"

text \<open>
  A session that has ended: both participants are on the goal tile, participant 1 arrived
  in turn 3 and is the winner, participant 2 arrived in turn 5.
\<close>

definition ended_pack :: pack_data where
  "ended_pack =
     example_pack\<lparr>tile_numbers := [(1, 100), (2, 100)], goal_reached_turn := [(1, 3), (2, 5)],
                  winners := [1], game_ended := True\<rparr>"

definition ended_session :: game_state where
  "ended_session = example_session\<lparr>turn_count := 5, pack := ended_pack\<rparr>"

text \<open>A session without participants.\<close>

definition empty_session :: game_state where
  "empty_session =
     \<lparr>players = [], player_states = [], turn_count = 0, is_locked = False,
      pack = example_pack\<lparr>tile_numbers := [], transformation_counts := [],
               original_characters := [], real_body_characters := [], mind_changed := [],
               turn_order := [], player_numbers := []\<rparr>\<rparr>"

text \<open>
  Three participants on the goal tile in turn 5: participants 1 and 2 arrived in turn 3,
  participant 3 arrives now.
\<close>

definition photo_finish :: game_state where
  "photo_finish =
     \<lparr>players = [(1, ann), (2, bob), (3, bob)], player_states = [], turn_count = 5,
      is_locked = False,
      pack = example_pack\<lparr>tile_numbers := [(1, 100), (2, 100), (3, 100)],
               goal_reached_turn := [(1, 3), (2, 3)], winners := [1, 2],
               turn_order := [1, 2, 3], player_numbers := [(1, 1), (2, 2), (3, 3)]\<rparr>\<rparr>"


text \<open>Two participants with a transformation state each, neither of them swapped.\<close>

definition own_state :: "user_id \<Rightarrow> string \<Rightarrow> transformation_state" where
  "own_state uid name =
     \<lparr>state_user_id = uid, state_character_name = name, character_folder = name,
      character_avatar_path = name, character_message = [], is_inanimate = False,
      inanimate_responses = [], form_owner_user_id = Some uid, identity_display_name = None,
      owner_fields = []\<rparr>"

definition swap_session :: game_state where
  "swap_session = example_session\<lparr>player_states := [(1, own_state 1 ''Ann''), (2, own_state 2 ''Bob'')]\<rparr>"

text \<open>
  On the wide board, participant 1 stands one tile before the last column.
\<close>

definition wide_session :: game_state where
  "wide_session = example_session\<lparr>pack := example_pack\<lparr>tile_numbers := [(1, 1114047), (2, 3)]\<rparr>\<rparr>"
















section \<open>Decimal text and characters\<close>

lemma of_char_digit_char: "d < 10 \<Longrightarrow> (of_char (digit_char d) :: nat) = 48 + d"
  by (simp add: digit_char_def)

lemma is_digit_digit_char: "d < 10 \<Longrightarrow> is_digit (digit_char d)"
  by (simp add: is_digit_def of_char_digit_char)

lemma str_nat_not_Nil: "str_nat n \<noteq> []"
  by (subst str_nat.simps) simp

lemma str_int_not_Nil: "str_int i \<noteq> []"
  by (simp add: str_int_def str_nat_not_Nil)

lemma str_nat_digits: "list_all is_digit (str_nat n)"
proof (induction n rule: str_nat.induct)
  case (1 n)
  show ?case
  proof (cases "n < 10")
    case True
    then show ?thesis by (subst str_nat.simps) (simp add: is_digit_digit_char)
  next
    case False
    with 1 show ?thesis by (subst str_nat.simps) (simp add: is_digit_digit_char)
  qed
qed

lemma parse_nat_snoc: "parse_nat (ds @ [d]) = parse_nat ds * 10 + (of_char d - 48)"
  by (simp add: parse_nat_def)

lemma parse_nat_str_nat: "parse_nat (str_nat n) = n"
proof (induction n rule: str_nat.induct)
  case (1 n)
  show ?case
  proof (cases "n < 10")
    case True
    then show ?thesis
      by (subst str_nat.simps) (simp add: parse_nat_def of_char_digit_char)
  next
    case False
    with 1 show ?thesis
      by (subst str_nat.simps) (simp add: parse_nat_snoc of_char_digit_char)
  qed
qed

lemma py_chr_letter:
  "1 \<le> column \<Longrightarrow> column \<le> 26 \<Longrightarrow> py_chr (65 + column - 1) = Inr [char_of (nat (64 + column))]"
  by (simp add: py_chr_def utf8_def)

lemma py_chr_in_range:
  "0 \<le> i \<Longrightarrow> i \<le> 0x10FFFF \<Longrightarrow> \<exists>s. py_chr i = Inr s \<and> s \<noteq> []"
  by (simp add: py_chr_def utf8_def)

section \<open>Board coordinates: the two conversions\<close>

lemma parse_coordinate_text:
  assumes "1 \<le> column" "column \<le> 26" "0 \<le> row"
  shows "parse_alphanumeric_coordinate (coordinate_text column row) = Some (column, row)"
proof -
  have c: "(of_char (char_of (nat (64 + column)) :: char) :: nat) = nat (64 + column)"
    using assms by simp
  have u: "is_upper_letter (char_of (nat (64 + column)))"
    using assms unfolding is_upper_letter_def c by arith
  have r: "str_int row = str_nat (nat row)"
    using assms by (simp add: str_int_def)
  show ?thesis
    using assms u
    by (simp add: parse_alphanumeric_coordinate_def coordinate_text_def r str_nat_not_Nil
        str_nat_digits parse_nat_str_nat c)
qed

lemma tile_number_to_alphanumeric_letter:
  assumes "1 \<le> grid_cols cfg" "grid_cols cfg \<le> 26" "1 \<le> t" "t \<le> grid_rows cfg * grid_cols cfg"
  shows "tile_number_to_alphanumeric t cfg =
    Inr (Some (coordinate_text
      (if ((t - 1) div grid_cols cfg + 1) mod 2 = 1 then (t - 1) mod grid_cols cfg + 1
       else grid_cols cfg - ((t - 1) mod grid_cols cfg + 1) + 1)
      ((t - 1) div grid_cols cfg + 1)))"
proof -
  let ?c = "grid_cols cfg"
  let ?row = "(t - 1) div ?c + 1"
  let ?pos = "(t - 1) mod ?c + 1"
  let ?col = "if ?row mod 2 = 1 then ?pos else ?c - ?pos + 1"
  have m: "0 \<le> (t - 1) mod ?c" "(t - 1) mod ?c < ?c"
    using assms by simp_all
  have col: "1 \<le> ?col" "?col \<le> 26"
    using assms m by auto
  have "py_chr (65 + ?col - 1) = Inr [char_of (nat (64 + ?col))]"
    using col by (rule py_chr_letter)
  then show ?thesis
    using assms
    by (simp add: tile_number_to_alphanumeric_def Let_def coordinate_text_def del: One_nat_def)
qed

lemma tile_round_trip:
  assumes "1 \<le> grid_cols cfg" "grid_cols cfg \<le> 26" "1 \<le> t" "t \<le> grid_rows cfg * grid_cols cfg"
  shows "\<exists>coord. tile_number_to_alphanumeric t cfg = Inr (Some coord) \<and>
           alphanumeric_to_tile_number coord cfg = Some t"
proof -
  let ?c = "grid_cols cfg"
  let ?row = "(t - 1) div ?c + 1"
  let ?pos = "(t - 1) mod ?c + 1"
  let ?col = "if ?row mod 2 = 1 then ?pos else ?c - ?pos + 1"
  have m: "0 \<le> (t - 1) mod ?c" "(t - 1) mod ?c < ?c"
    using assms by simp_all
  have d: "0 \<le> (t - 1) div ?c"
    using assms by (simp add: pos_imp_zdiv_nonneg_iff)
  have col: "1 \<le> ?col" "?col \<le> 26"
    using assms m by auto
  have p: "parse_alphanumeric_coordinate (coordinate_text ?col ?row) = Some (?col, ?row)"
    using col d by (intro parse_coordinate_text) simp_all
  have again: "(?row - 1) * ?c + (if ?row mod 2 = 1 then ?col else ?c - ?col + 1) = t"
  proof -
    have "(if ?row mod 2 = 1 then ?col else ?c - ?col + 1) = ?pos" by simp
    moreover have "(t - 1) div ?c * ?c + (t - 1) mod ?c = t - 1" by simp
    ultimately show ?thesis by simp
  qed
  have "alphanumeric_to_tile_number (coordinate_text ?col ?row) cfg = Some t"
    unfolding alphanumeric_to_tile_number_def p using again by (simp add: Let_def)
  then show ?thesis
    using tile_number_to_alphanumeric_letter [OF assms] by simp
qed

lemma coordinate_round_trip:
  assumes "1 \<le> column" "column \<le> grid_cols cfg" "grid_cols cfg \<le> 26"
    and "1 \<le> row" "row \<le> grid_rows cfg"
  shows "\<exists>t. alphanumeric_to_tile_number (coordinate_text column row) cfg = Some t \<and>
           tile_number_to_alphanumeric t cfg = Inr (Some (coordinate_text column row))"
proof -
  let ?c = "grid_cols cfg"
  let ?pos = "if row mod 2 = 1 then column else ?c - column + 1"
  let ?t = "(row - 1) * ?c + ?pos"
  have pos: "1 \<le> ?pos" "?pos \<le> ?c"
    using assms by auto
  have p: "parse_alphanumeric_coordinate (coordinate_text column row) = Some (column, row)"
    using assms by (intro parse_coordinate_text) simp_all
  have a: "alphanumeric_to_tile_number (coordinate_text column row) cfg = Some ?t"
    unfolding alphanumeric_to_tile_number_def p by (simp add: Let_def)
  have t1: "?t - 1 = (?pos - 1) + (row - 1) * ?c" by simp
  have dv: "(?t - 1) div ?c = row - 1"
    unfolding t1 using pos assms by simp
  have md: "(?t - 1) mod ?c = ?pos - 1"
    unfolding t1 using pos assms by simp
  have lo: "1 \<le> ?t"
  proof -
    have "0 \<le> (row - 1) * ?c" using assms by simp
    then show ?thesis using pos by linarith
  qed
  have hi: "?t \<le> grid_rows cfg * ?c"
  proof -
    have "?t \<le> (row - 1) * ?c + ?c" using pos by linarith
    also have "\<dots> = row * ?c" by (simp add: algebra_simps)
    also have "\<dots> \<le> grid_rows cfg * ?c"
      using assms by (intro mult_right_mono) simp_all
    finally show ?thesis .
  qed
  have c1: "1 \<le> ?c" using assms by linarith
  have "tile_number_to_alphanumeric ?t cfg = Inr (Some (coordinate_text column row))"
    unfolding tile_number_to_alphanumeric_letter [OF c1 assms(3) lo hi] dv md
    by (auto simp add: coordinate_text_def)
  with a show ?thesis by blast
qed

text \<open>
  C7. On a 10 by 10 grid, every tile number from 1 to 100 is turned into a coordinate that
  is turned back into the same tile number, and every coordinate from A1 to J10 is turned
  into a tile number that is turned back into the same coordinate. The reading of a
  coordinate text is the one modelled from the spec.
\<close>

theorem coordinate_round_trip_10x10:
  assumes "grid_rows cfg = 10" and "grid_cols cfg = 10"
  shows "(\<forall>t\<in>{1..100}. \<exists>coord. tile_number_to_alphanumeric t cfg = Inr (Some coord) \<and>
             alphanumeric_to_tile_number coord cfg = Some t) \<and>
         (\<forall>column\<in>{1..10}. \<forall>row\<in>{1..10}.
            \<exists>t. alphanumeric_to_tile_number (coordinate_text column row) cfg = Some t \<and>
                tile_number_to_alphanumeric t cfg = Inr (Some (coordinate_text column row)))"
proof (intro conjI ballI)
  fix t :: int
  assume "t \<in> {1..100}"
  then show "\<exists>coord. tile_number_to_alphanumeric t cfg = Inr (Some coord) \<and>
      alphanumeric_to_tile_number coord cfg = Some t"
    using assms by (intro tile_round_trip) simp_all
next
  fix column row :: int
  assume "column \<in> {1..10}" and "row \<in> {1..10}"
  then show "\<exists>t. alphanumeric_to_tile_number (coordinate_text column row) cfg = Some t \<and>
      tile_number_to_alphanumeric t cfg = Inr (Some (coordinate_text column row))"
    using assms by (intro coordinate_round_trip) simp_all
qed

theorem coordinate_round_trip_10x10_witness:
  "grid_rows classic_board = 10 \<and> grid_cols classic_board = 10 \<and> (16::int) \<in> {1..100} \<and>
   (5::int) \<in> {1..10} \<and> (2::int) \<in> {1..10} \<and> coordinate_text 5 2 = ''E2'' \<and>
   tile_number_to_alphanumeric 16 classic_board = Inr (Some ''E2'') \<and>
   alphanumeric_to_tile_number ''E2'' classic_board = Some 16"
proof -
  have r: "grid_rows classic_board = 10" and c: "grid_cols classic_board = 10"
    by (simp_all add: classic_board_def)
  have e: "coordinate_text 5 2 = ''E2''"
    by code_simp
  have "\<exists>t. alphanumeric_to_tile_number (coordinate_text 5 2) classic_board = Some t \<and>
      tile_number_to_alphanumeric t classic_board = Inr (Some (coordinate_text 5 2))"
    using coordinate_round_trip_10x10 [OF r c] by simp
  moreover have "alphanumeric_to_tile_number ''E2'' classic_board = Some 16"
    by code_simp
  ultimately show ?thesis
    using r c e by auto
qed

lemma tile_number_to_alphanumeric_cases:
  assumes "0 \<le> grid_cols cfg" "grid_cols cfg \<le> 1114047"
  shows "(tile_num < 1 \<or> tile_num > grid_rows cfg * grid_cols cfg \<longrightarrow>
            tile_number_to_alphanumeric tile_num cfg = Inr None) \<and>
         (1 \<le> tile_num \<and> tile_num \<le> grid_rows cfg * grid_cols cfg \<longrightarrow>
            (\<exists>coord. tile_number_to_alphanumeric tile_num cfg = Inr (Some coord) \<and> coord \<noteq> []))"
proof (intro conjI impI)
  assume "tile_num < 1 \<or> tile_num > grid_rows cfg * grid_cols cfg"
  then show "tile_number_to_alphanumeric tile_num cfg = Inr None"
    by (auto simp add: tile_number_to_alphanumeric_def Let_def)
next
  let ?c = "grid_cols cfg"
  let ?row = "(tile_num - 1) div ?c + 1"
  let ?pos = "(tile_num - 1) mod ?c + 1"
  let ?col = "if ?row mod 2 = 1 then ?pos else ?c - ?pos + 1"
  assume t: "1 \<le> tile_num \<and> tile_num \<le> grid_rows cfg * grid_cols cfg"
  have "?c \<noteq> 0"
    using t by auto
  then have c: "1 \<le> ?c"
    using assms by linarith
  have m: "0 \<le> (tile_num - 1) mod ?c" "(tile_num - 1) mod ?c < ?c"
    using c by simp_all
  have col: "0 \<le> 65 + ?col - 1" "65 + ?col - 1 \<le> 0x10FFFF"
    using assms m by auto
  obtain s where s: "py_chr (65 + ?col - 1) = Inr s"
    using py_chr_in_range [OF col] by blast
  show "\<exists>coord. tile_number_to_alphanumeric tile_num cfg = Inr (Some coord) \<and> coord \<noteq> []"
    using t s by (simp add: tile_number_to_alphanumeric_def Let_def str_int_not_Nil)
qed

text \<open>
  C10, as the code has it. For every grid whose number of columns is between 0 and 1114047
  (so that every column letter \<open>chr(ord('A') + column - 1)\<close> exists), and for every number
  of rows, the conversion returns \<open>None\<close> for every tile number below 1 or above rows times
  columns, and a non-empty coordinate text for every tile number from 1 to rows times
  columns; it never raises.
\<close>

theorem tile_number_to_alphanumeric_total:
  assumes "0 \<le> grid_cols cfg" and "grid_cols cfg \<le> 1114047"
  shows "(tile_num < 1 \<or> tile_num > grid_rows cfg * grid_cols cfg \<longrightarrow>
            tile_number_to_alphanumeric tile_num cfg = Inr None) \<and>
         (1 \<le> tile_num \<and> tile_num \<le> grid_rows cfg * grid_cols cfg \<longrightarrow>
            (\<exists>coord. tile_number_to_alphanumeric tile_num cfg = Inr (Some coord) \<and> coord \<noteq> []))"
  using assms by (rule tile_number_to_alphanumeric_cases)

theorem tile_number_to_alphanumeric_total_witness:
  "0 \<le> grid_cols classic_board \<and> grid_cols classic_board \<le> 1114047 \<and>
   tile_number_to_alphanumeric 0 classic_board = Inr None \<and>
   tile_number_to_alphanumeric 101 classic_board = Inr None \<and>
   (\<exists>coord. tile_number_to_alphanumeric 100 classic_board = Inr (Some coord) \<and> coord \<noteq> [])"
proof -
  have lo: "0 \<le> grid_cols classic_board" and hi: "grid_cols classic_board \<le> 1114047"
    by (simp_all add: classic_board_def)
  have g: "grid_rows classic_board * grid_cols classic_board = 100"
    by (simp add: classic_board_def)
  show ?thesis
    using tile_number_to_alphanumeric_total [OF lo hi, of 0]
      tile_number_to_alphanumeric_total [OF lo hi, of 101]
      tile_number_to_alphanumeric_total [OF lo hi, of 100] lo hi
    by (simp add: g)
qed

text \<open>
  C10 as stated fails: on a grid of one row and 1114048 columns, tile 1114048 is within
  1..rows*columns, and the conversion raises \<open>ValueError\<close> in \<open>chr\<close>.
\<close>

theorem tile_number_to_alphanumeric_raises:
  "(1::int) \<le> 1114048 \<and> 1114048 \<le> grid_rows wide_board * grid_cols wide_board \<and>
   tile_number_to_alphanumeric 1114048 wide_board = Inl ValueError"
  by (simp add: tile_number_to_alphanumeric_def wide_board_def py_chr_def)


section \<open>Win detection\<close>

lemma has_key_iff: "has_key d k \<longleftrightarrow> k \<in> fst ` set d"
  by (simp add: has_key_def map_of_eq_None_iff)

lemma has_key_update: "has_key (AList.update k v d) k' \<longleftrightarrow> k' = k \<or> has_key d k'"
  by (auto simp add: has_key_def update_conv')

lemma goal_step_frame:
  assumes "goal_step w c item (d, n) = (d', n')"
  shows "tile_numbers d' = tile_numbers d" "turn_order d' = turn_order d"
    "player_numbers d' = player_numbers d" "players_rolled_this_turn d' = players_rolled_this_turn d"
    "forfeited_players d' = forfeited_players d" "game_ended d' = game_ended d"
    "transformation_counts d' = transformation_counts d" "original_characters d' = original_characters d"
    "real_body_characters d' = real_body_characters d" "mind_changed d' = mind_changed d"
    "current_turn_index d' = current_turn_index d" "removed_player_positions d' = removed_player_positions d"
  using assms by (auto simp add: goal_step_def Let_def split: prod.splits if_splits)

lemma goal_loop_frame:
  assumes "fold (goal_step w c) items (d, n) = (d', n')"
  shows "tile_numbers d' = tile_numbers d \<and> turn_order d' = turn_order d \<and>
    player_numbers d' = player_numbers d \<and> players_rolled_this_turn d' = players_rolled_this_turn d \<and>
    forfeited_players d' = forfeited_players d \<and> game_ended d' = game_ended d \<and>
    transformation_counts d' = transformation_counts d \<and> original_characters d' = original_characters d \<and>
    real_body_characters d' = real_body_characters d \<and> mind_changed d' = mind_changed d \<and>
    current_turn_index d' = current_turn_index d \<and> removed_player_positions d' = removed_player_positions d"
  using assms
proof (induction items arbitrary: d n)
  case Nil
  then show ?case by simp
next
  case (Cons item items)
  obtain d1 n1 where s: "goal_step w c item (d, n) = (d1, n1)"
    by (cases "goal_step w c item (d, n)")
  with Cons.prems have "fold (goal_step w c) items (d1, n1) = (d', n')" by simp
  from Cons.IH [OF this] goal_step_frame [OF s] show ?case by simp
qed

lemma goal_step_keys:
  assumes "goal_step w c (u, t) (d, n) = (d', n')"
  shows "has_key (goal_reached_turn d') k \<longleftrightarrow> has_key (goal_reached_turn d) k \<or> (t \<ge> w \<and> k = u)"
    and "k \<in> set (winners d') \<longleftrightarrow> k \<in> set (winners d) \<or> (t \<ge> w \<and> k = u)"
  using assms
  by (auto simp add: goal_step_def Let_def has_key_update split: if_splits)

lemma goal_loop_keys:
  assumes "fold (goal_step w c) items (d, n) = (d', n')"
  shows "(has_key (goal_reached_turn d') k \<longleftrightarrow>
            has_key (goal_reached_turn d) k \<or> (\<exists>t. (k, t) \<in> set items \<and> t \<ge> w)) \<and>
         (k \<in> set (winners d') \<longleftrightarrow> k \<in> set (winners d) \<or> (\<exists>t. (k, t) \<in> set items \<and> t \<ge> w))"
  using assms
proof (induction items arbitrary: d n)
  case Nil
  then show ?case by simp
next
  case (Cons item items)
  obtain u t where item: "item = (u, t)" by (cases item)
  obtain d1 n1 where s: "goal_step w c (u, t) (d, n) = (d1, n1)"
    by (cases "goal_step w c (u, t) (d, n)")
  with Cons.prems item have "fold (goal_step w c) items (d1, n1) = (d', n')" by simp
  from Cons.IH [OF this] goal_step_keys [OF s, of k] item show ?case by auto
qed

lemma earliest_winners_iff:
  assumes "reached \<noteq> []"
  shows "u \<in> set (earliest_winners reached) \<longleftrightarrow>
    (\<exists>t. (u, t) \<in> set reached \<and> (\<forall>item \<in> set reached. t \<le> snd item))"
proof -
  let ?m = "min_list (map snd reached)"
  have m: "?m = Min (set (map snd reached))"
    using assms by (simp add: min_list_Min)
  have le: "\<forall>item \<in> set reached. ?m \<le> snd item"
    unfolding m by (auto intro: Min_le)
  have "?m \<in> set (map snd reached)"
    unfolding m using assms by (intro Min_in) simp_all
  then obtain v where v: "(v, ?m) \<in> set reached" by auto
  show ?thesis
  proof
    assume "u \<in> set (earliest_winners reached)"
    then have "(u, ?m) \<in> set reached"
      by (auto simp add: earliest_winners_def)
    with le show "\<exists>t. (u, t) \<in> set reached \<and> (\<forall>item \<in> set reached. t \<le> snd item)" by blast
  next
    assume "\<exists>t. (u, t) \<in> set reached \<and> (\<forall>item \<in> set reached. t \<le> snd item)"
    then obtain t where t: "(u, t) \<in> set reached" "\<forall>item \<in> set reached. t \<le> snd item" by blast
    from t(2) v have "t \<le> ?m" by force
    moreover from le t(1) have "?m \<le> t" by force
    ultimately have "t = ?m" by simp
    with t(1) show "u \<in> set (earliest_winners reached)"
      by (force simp add: earliest_winners_def)
  qed
qed

lemma check_win_condition_unfold:
  assumes "fold (goal_step (rules_win_tile cfg) (turn_count gs)) (tile_numbers (pack gs)) (pack gs, []) = (d, n)"
  shows "check_win_condition gs cfg =
    (if list_all (\<lambda>item. snd item \<ge> rules_win_tile cfg) (tile_numbers (pack gs)) then
       if \<not> game_ended (pack gs) then
         if goal_reached_turn d \<noteq> [] then
           if length (earliest_winners (goal_reached_turn d)) = 1
           then Inr (gs\<lparr>pack := d\<lparr>game_ended := True, winners := earliest_winners (goal_reached_turn d)\<rparr>\<rparr>,
                     Some (GameOverWinner (hd (earliest_winners (goal_reached_turn d)))), True)
           else Inr (gs\<lparr>pack := d\<lparr>game_ended := True, winners := earliest_winners (goal_reached_turn d)\<rparr>\<rparr>,
                     Some (GameOverWinners (earliest_winners (goal_reached_turn d))
                            (min_list (map snd (goal_reached_turn d)))), True)
         else if length (map fst (tile_numbers (pack gs))) = 1
           then Inr (gs\<lparr>pack := d\<lparr>game_ended := True, winners := map fst (tile_numbers (pack gs))\<rparr>\<rparr>,
                     Some (GameOverWinner (hd (map fst (tile_numbers (pack gs))))), True)
           else Inl UnboundLocalError
       else Inr (gs\<lparr>pack := d\<rparr>, None, True)
     else if n \<noteq> [] then Inr (gs\<lparr>pack := d\<rparr>, Some (GoalReached n (rules_win_tile cfg) (turn_count gs)), False)
     else Inr (gs\<lparr>pack := d\<rparr>, None, False))"
proof -
  from goal_loop_frame [OF assms]
  have f: "tile_numbers d = tile_numbers (pack gs)" "game_ended d = game_ended (pack gs)"
    by simp_all
  show ?thesis
    by (simp add: check_win_condition_def Let_def assms f)
qed

lemma check_win_condition_frame:
  assumes "check_win_condition gs cfg = Inr (gs', m, e)"
  shows "players gs' = players gs \<and> player_states gs' = player_states gs \<and>
    turn_count gs' = turn_count gs \<and> is_locked gs' = is_locked gs \<and>
    tile_numbers (pack gs') = tile_numbers (pack gs) \<and> turn_order (pack gs') = turn_order (pack gs) \<and>
    player_numbers (pack gs') = player_numbers (pack gs) \<and>
    players_rolled_this_turn (pack gs') = players_rolled_this_turn (pack gs) \<and>
    forfeited_players (pack gs') = forfeited_players (pack gs)"
proof -
  obtain d n where l: "fold (goal_step (rules_win_tile cfg) (turn_count gs)) (tile_numbers (pack gs)) (pack gs, []) = (d, n)"
    by (cases "fold (goal_step (rules_win_tile cfg) (turn_count gs)) (tile_numbers (pack gs)) (pack gs, [])")
  from goal_loop_frame [OF l] assms show ?thesis
    unfolding check_win_condition_unfold [OF l]
    by (auto split: if_splits)
qed

lemma check_win_condition_returns:
  assumes "tile_numbers (pack gs) \<noteq> []"
  shows "\<exists>r. check_win_condition gs cfg = Inr r"
proof -
  obtain d n where l: "fold (goal_step (rules_win_tile cfg) (turn_count gs)) (tile_numbers (pack gs)) (pack gs, []) = (d, n)"
    by (cases "fold (goal_step (rules_win_tile cfg) (turn_count gs)) (tile_numbers (pack gs)) (pack gs, [])")
  have "goal_reached_turn d \<noteq> []"
    if all: "list_all (\<lambda>item. snd item \<ge> rules_win_tile cfg) (tile_numbers (pack gs))"
  proof -
    obtain u t rest where ut: "tile_numbers (pack gs) = (u, t) # rest"
      using assms by (cases "tile_numbers (pack gs)") auto
    with all have "(u, t) \<in> set (tile_numbers (pack gs)) \<and> t \<ge> rules_win_tile cfg" by simp
    with goal_loop_keys [OF l, of u] have "has_key (goal_reached_turn d) u" by blast
    then show ?thesis by (auto simp add: has_key_def)
  qed
  then show ?thesis
    unfolding check_win_condition_unfold [OF l] by auto
qed

lemma check_win_condition_final:
  assumes all: "list_all (\<lambda>item. snd item \<ge> rules_win_tile cfg) (tile_numbers (pack gs))"
    and ne: "tile_numbers (pack gs) \<noteq> []"
    and ng: "\<not> game_ended (pack gs)"
  shows "\<exists>gs' msg. check_win_condition gs cfg = Inr (gs', msg, True) \<and> game_ended (pack gs') \<and>
      (\<forall>u \<in> fst ` set (tile_numbers (pack gs)). u \<in> fst ` set (goal_reached_turn (pack gs'))) \<and>
      (\<forall>u. u \<in> set (winners (pack gs')) \<longleftrightarrow>
         (\<exists>t. (u, t) \<in> set (goal_reached_turn (pack gs')) \<and>
              (\<forall>item \<in> set (goal_reached_turn (pack gs')). t \<le> snd item)))"
proof -
  obtain d n where l: "fold (goal_step (rules_win_tile cfg) (turn_count gs)) (tile_numbers (pack gs)) (pack gs, []) = (d, n)"
    by (cases "fold (goal_step (rules_win_tile cfg) (turn_count gs)) (tile_numbers (pack gs)) (pack gs, [])")
  have stamped: "u \<in> fst ` set (goal_reached_turn d)" if "u \<in> fst ` set (tile_numbers (pack gs))" for u
  proof -
    from that obtain t where "(u, t) \<in> set (tile_numbers (pack gs))" by auto
    moreover from this all have "t \<ge> rules_win_tile cfg" by (auto simp add: list_all_iff)
    ultimately have "has_key (goal_reached_turn d) u"
      using goal_loop_keys [OF l, of u] by blast
    then show ?thesis by (simp add: has_key_iff)
  qed
  have g: "goal_reached_turn d \<noteq> []"
  proof -
    obtain u t rest where "tile_numbers (pack gs) = (u, t) # rest"
      using ne by (cases "tile_numbers (pack gs)") auto
    then have "u \<in> fst ` set (tile_numbers (pack gs))" by simp
    from stamped [OF this] show ?thesis by auto
  qed
  let ?gs' = "gs\<lparr>pack := d\<lparr>game_ended := True, winners := earliest_winners (goal_reached_turn d)\<rparr>\<rparr>"
  have "\<exists>msg. check_win_condition gs cfg = Inr (?gs', msg, True)"
    unfolding check_win_condition_unfold [OF l] using all ng g by simp
  moreover have "game_ended (pack ?gs')" by simp
  moreover have "\<forall>u \<in> fst ` set (tile_numbers (pack gs)). u \<in> fst ` set (goal_reached_turn (pack ?gs'))"
    using stamped by simp
  moreover have "\<forall>u. u \<in> set (winners (pack ?gs')) \<longleftrightarrow>
         (\<exists>t. (u, t) \<in> set (goal_reached_turn (pack ?gs')) \<and>
              (\<forall>item \<in> set (goal_reached_turn (pack ?gs')). t \<le> snd item))"
    using earliest_winners_iff [OF g] by simp
  ultimately show ?thesis by blast
qed

lemma earliest_winners_keys: "u \<in> set (earliest_winners reached) \<Longrightarrow> has_key reached u"
  by (auto simp add: earliest_winners_def has_key_iff)

lemma check_win_condition_below_goal:
  assumes r: "check_win_condition gs cfg = Inr (gs', m, e)"
    and w: "p \<notin> set (winners (pack gs))"
    and k: "\<not> has_key (goal_reached_turn (pack gs)) p"
    and b: "\<forall>t. (p, t) \<in> set (tile_numbers (pack gs)) \<longrightarrow> t < rules_win_tile cfg"
  shows "p \<notin> set (winners (pack gs')) \<and> \<not> has_key (goal_reached_turn (pack gs')) p"
proof -
  obtain d n where l: "fold (goal_step (rules_win_tile cfg) (turn_count gs)) (tile_numbers (pack gs)) (pack gs, []) = (d, n)"
    by (cases "fold (goal_step (rules_win_tile cfg) (turn_count gs)) (tile_numbers (pack gs)) (pack gs, [])")
  have nb: "\<not> (\<exists>t. (p, t) \<in> set (tile_numbers (pack gs)) \<and> t \<ge> rules_win_tile cfg)"
    using b by force
  from goal_loop_keys [OF l, of p] w k nb
  have d: "p \<notin> set (winners d)" "\<not> has_key (goal_reached_turn d) p" by simp_all
  have e: "p \<notin> set (earliest_winners (goal_reached_turn d))"
    using d(2) earliest_winners_keys by blast
  have f: "p \<notin> set (map fst (tile_numbers (pack gs)))"
    if "list_all (\<lambda>item. snd item \<ge> rules_win_tile cfg) (tile_numbers (pack gs))"
    using that b by (force simp add: list_all_iff)
  show ?thesis
    using r d e f unfolding check_win_condition_unfold [OF l]
    by (auto split: if_splits)
qed

lemma has_key_map_entry: "has_key (AList.map_entry k f d) k' = has_key d k'"
  by (simp add: has_key_iff dom_map_entry)

lemma update_position_result:
  assumes "0 \<le> grid_cols cfg" "grid_cols cfg \<le> 1114047"
  shows "\<exists>gs'. update_position uid t cfg gs = Inr gs' \<and> pack gs' = pack gs \<and>
    turn_count gs' = turn_count gs \<and> is_locked gs' = is_locked gs \<and>
    player_states gs' = player_states gs \<and> (\<forall>k. has_key (players gs') k = has_key (players gs) k)"
proof -
  from tile_number_to_alphanumeric_cases [OF assms, of t]
  consider "tile_number_to_alphanumeric t cfg = Inr None"
    | coord where "tile_number_to_alphanumeric t cfg = Inr (Some coord)"
    by (cases "t < 1 \<or> t > grid_rows cfg * grid_cols cfg") auto
  then show ?thesis
  proof cases
    case 1
    then show ?thesis by (simp add: update_position_def)
  next
    case 2
    then show ?thesis
      by (simp add: update_position_def set_grid_position_def has_key_map_entry)
  qed
qed

lemma apply_redirection_result:
  assumes "0 \<le> grid_cols cfg" "grid_cols cfg \<le> 1114047"
    and "map_of (tile_numbers (pack gs)) uid = Some tile"
  shows "\<exists>gs'. apply_redirection uid tile cfg gs =
      Inr (gs', Line (msg_moved tile) # redirection_lines cfg tile, landing cfg tile) \<and>
    pack gs' = (pack gs)\<lparr>tile_numbers := AList.update uid (landing cfg tile) (tile_numbers (pack gs))\<rparr> \<and>
    turn_count gs' = turn_count gs \<and> is_locked gs' = is_locked gs \<and>
    player_states gs' = player_states gs \<and> (\<forall>k. has_key (players gs') k = has_key (players gs) k)"
proof (cases "rules_snakes cfg tile")
  case (Some tail_tile)
  from update_position_result [OF assms(1,2), of uid tail_tile "set_tile uid tail_tile gs"]
  obtain gs' where "update_position uid tail_tile cfg (set_tile uid tail_tile gs) = Inr gs'"
    "pack gs' = pack (set_tile uid tail_tile gs)" "turn_count gs' = turn_count (set_tile uid tail_tile gs)"
    "is_locked gs' = is_locked (set_tile uid tail_tile gs)"
    "player_states gs' = player_states (set_tile uid tail_tile gs)"
    "\<forall>k. has_key (players gs') k = has_key (players (set_tile uid tail_tile gs)) k"
    by blast
  with Some show ?thesis
    by (simp add: apply_redirection_def landing_def redirection_lines_def set_tile_def)
next
  case None
  note snake = None
  show ?thesis
  proof (cases "rules_ladders cfg tile")
    case (Some top_tile)
    from update_position_result [OF assms(1,2), of uid top_tile "set_tile uid top_tile gs"]
    obtain gs' where "update_position uid top_tile cfg (set_tile uid top_tile gs) = Inr gs'"
      "pack gs' = pack (set_tile uid top_tile gs)" "turn_count gs' = turn_count (set_tile uid top_tile gs)"
      "is_locked gs' = is_locked (set_tile uid top_tile gs)"
      "player_states gs' = player_states (set_tile uid top_tile gs)"
      "\<forall>k. has_key (players gs') k = has_key (players (set_tile uid top_tile gs)) k"
      by blast
    with Some snake show ?thesis
      by (simp add: apply_redirection_def landing_def redirection_lines_def set_tile_def)
  next
    case None
    with snake assms(3) show ?thesis
      by (simp add: apply_redirection_def landing_def redirection_lines_def update_triv)
  qed
qed

lemma resolve_roll_result:
  assumes c: "0 \<le> grid_cols cfg" "grid_cols cfg \<le> 1114047"
  shows "\<exists>gs' gs3 gs4 rest tc m e.
    resolve_roll gs p r cfg =
      Inr (gs', (Line (msg_moved (clamped gs p r cfg)) # redirection_lines cfg (clamped gs p r cfg) @ rest,
                True, None, tc)) \<and>
    check_win_condition gs3 cfg = Inr (gs4, m, e) \<and>
    pack gs3 = (pack gs)
      \<lparr>tile_numbers := AList.update p (landing cfg (clamped gs p r cfg))
                         (AList.update p (clamped gs p r cfg) (tile_numbers (pack gs))),
       players_rolled_this_turn :=
         (if p \<in> set (players_rolled_this_turn (pack gs)) then players_rolled_this_turn (pack gs)
          else players_rolled_this_turn (pack gs) @ [p])\<rparr> \<and>
    turn_count gs3 = turn_count gs \<and>
    pack gs' = (pack gs4)\<lparr>game_ended := e\<rparr> \<and>
    turn_count gs' = turn_count gs \<and> is_locked gs' = is_locked gs \<and>
    player_states gs' = player_states gs \<and> (\<forall>k. has_key (players gs') k = has_key (players gs) k)"
proof -
  let ?l = "clamped gs p r cfg"
  have l: "(if tile_of (pack gs) p + r \<ge> rules_win_tile cfg then rules_win_tile cfg
            else tile_of (pack gs) p + r) = ?l"
    by (simp add: clamped_def min_def)
  from update_position_result [OF c, of p ?l "set_tile p ?l gs"]
  obtain gs1 where 1: "update_position p ?l cfg (set_tile p ?l gs) = Inr gs1"
    and p1: "pack gs1 = pack (set_tile p ?l gs)" and o1: "turn_count gs1 = turn_count gs"
      "is_locked gs1 = is_locked gs" "player_states gs1 = player_states gs"
      "\<forall>k. has_key (players gs1) k = has_key (players gs) k"
    by (auto simp add: set_tile_def)
  have t1: "map_of (tile_numbers (pack gs1)) p = Some ?l"
    by (simp add: p1 set_tile_def update_conv')
  from apply_redirection_result [OF c t1]
  obtain gs2 where 2: "apply_redirection p ?l cfg gs1 =
      Inr (gs2, Line (msg_moved ?l) # redirection_lines cfg ?l, landing cfg ?l)"
    and p2: "pack gs2 = (pack gs1)\<lparr>tile_numbers := AList.update p (landing cfg ?l) (tile_numbers (pack gs1))\<rparr>"
    and o2: "turn_count gs2 = turn_count gs1" "is_locked gs2 = is_locked gs1"
      "player_states gs2 = player_states gs1" "\<forall>k. has_key (players gs2) k = has_key (players gs1) k"
    by blast
  let ?rolled = "players_rolled_this_turn (pack gs2)"
  let ?gs3 = "if p \<in> set ?rolled then gs2
              else gs2\<lparr>pack := (pack gs2)\<lparr>players_rolled_this_turn := ?rolled @ [p]\<rparr>\<rparr>"
  have ne: "tile_numbers (pack ?gs3) \<noteq> []"
    by (simp add: p2)
  from check_win_condition_returns [OF ne, of cfg]
  obtain gs4 m e where 4: "check_win_condition ?gs3 cfg = Inr (gs4, m, e)"
    by (metis prod_cases3)
  from check_win_condition_frame [OF 4]
  have o4: "players gs4 = players ?gs3" "player_states gs4 = player_states ?gs3"
    "turn_count gs4 = turn_count ?gs3" "is_locked gs4 = is_locked ?gs3"
    by simp_all
  let ?parts = "Line (msg_moved ?l) # redirection_lines cfg ?l"
  let ?parts1 = "if 2 \<le> landing cfg ?l \<and> landing cfg ?l \<le> 99 then
                   (case tile_color_info cfg (landing cfg ?l) of
                      None \<Rightarrow> ?parts
                    | Some info_msg \<Rightarrow> if info_msg \<noteq> [] then ?parts @ [Line info_msg] else ?parts)
                 else ?parts"
  let ?parts2 = "case m of None \<Rightarrow> ?parts1 | Some w \<Rightarrow> ?parts1 @ [Announcement w]"
  let ?gs5 = "gs4\<lparr>pack := (pack gs4)\<lparr>game_ended := e\<rparr>\<rparr>"
  have r: "resolve_roll gs p r cfg =
      Inr (?gs5, (?parts2, True, None, is_turn_complete ?gs3 (rules_win_tile cfg)))"
    unfolding resolve_roll_def Let_def l using 1 2 4 by simp
  have "\<exists>rest1. ?parts1 = ?parts @ rest1"
    by (auto split: option.splits)
  then obtain rest1 where r1: "?parts1 = ?parts @ rest1" by blast
  have "\<exists>rest. ?parts2 = ?parts @ rest"
    unfolding r1 by (cases m) auto
  then obtain rest where r2: "?parts2 = Line (msg_moved ?l) # redirection_lines cfg ?l @ rest"
    by auto
  have p3: "pack ?gs3 = (pack gs)
      \<lparr>tile_numbers := AList.update p (landing cfg ?l) (AList.update p ?l (tile_numbers (pack gs))),
       players_rolled_this_turn :=
         (if p \<in> set (players_rolled_this_turn (pack gs)) then players_rolled_this_turn (pack gs)
          else players_rolled_this_turn (pack gs) @ [p])\<rparr>"
    by (simp add: p2 p1 set_tile_def)
  have t3: "turn_count ?gs3 = turn_count gs"
    by (simp add: o2 o1)
  have o5: "turn_count ?gs5 = turn_count gs" "is_locked ?gs5 = is_locked gs"
    "player_states ?gs5 = player_states gs" "\<forall>k. has_key (players ?gs5) k = has_key (players gs) k"
    using o4 o2 o1 by auto
  show ?thesis
    using r r2 4 p3 t3 o5 by (intro exI [of _ ?gs5] exI [of _ ?gs3] exI [of _ gs4] exI [of _ rest]
        exI [of _ "is_turn_complete ?gs3 (rules_win_tile cfg)"] exI [of _ m] exI [of _ e])
      (simp del: pack_data.simps)
qed

lemma resolve_roll_tile:
  assumes c: "0 \<le> grid_cols cfg" "grid_cols cfg \<le> 1114047"
  shows "\<exists>gs' rest tc.
    resolve_roll gs p r cfg =
      Inr (gs', (Line (msg_moved (clamped gs p r cfg)) # redirection_lines cfg (clamped gs p r cfg) @ rest,
                True, None, tc)) \<and>
    tile_of (pack gs') p = landing cfg (clamped gs p r cfg) \<and>
    p \<in> set (players_rolled_this_turn (pack gs'))"
proof -
  from resolve_roll_result [OF c, of gs p r]
  obtain gs' gs3 gs4 rest tc m e where
    r: "resolve_roll gs p r cfg =
      Inr (gs', (Line (msg_moved (clamped gs p r cfg)) # redirection_lines cfg (clamped gs p r cfg) @ rest,
                True, None, tc))"
    and w: "check_win_condition gs3 cfg = Inr (gs4, m, e)"
    and p3: "pack gs3 = (pack gs)
      \<lparr>tile_numbers := AList.update p (landing cfg (clamped gs p r cfg))
                         (AList.update p (clamped gs p r cfg) (tile_numbers (pack gs))),
       players_rolled_this_turn :=
         (if p \<in> set (players_rolled_this_turn (pack gs)) then players_rolled_this_turn (pack gs)
          else players_rolled_this_turn (pack gs) @ [p])\<rparr>"
    and p5: "pack gs' = (pack gs4)\<lparr>game_ended := e\<rparr>"
    by blast
  from check_win_condition_frame [OF w]
  have f: "tile_numbers (pack gs4) = tile_numbers (pack gs3)"
    "players_rolled_this_turn (pack gs4) = players_rolled_this_turn (pack gs3)"
    by simp_all
  have "tile_of (pack gs') p = landing cfg (clamped gs p r cfg)"
    by (simp add: tile_of_def p5 f p3 update_conv')
  moreover have "p \<in> set (players_rolled_this_turn (pack gs'))"
    by (simp add: p5 f p3)
  ultimately show ?thesis using r by blast
qed

text \<open>
  C3, as the code has it. An eligible participant \<open>p\<close> (one whom none of the guards of
  \<open>on_dice_rolled\<close> turns away) on tile \<open>t\<close> who rolls \<open>r\<close> is moved: the roll returns, the
  tile it leaves \<open>p\<close> on is \<open>min (t + r) goal\<close> followed by the one redirection configured
  for that clamped tile, if any (a snake wins over a ladder; the target of the redirection
  is not looked up again), \<open>p\<close> is recorded as having rolled this turn, the response starts
  with the line naming the tile moved to, and it contains the line naming the snake's tail
  or the ladder's top whenever the redirection happened. The number of columns is between 0
  and 1114047, so that every column letter exists.
\<close>

theorem on_dice_rolled_moves:
  assumes "roll_rejection gs p cfg = None"
    and "0 \<le> grid_cols cfg" and "grid_cols cfg \<le> 1114047"
  shows "\<exists>gs' parts tc.
    on_dice_rolled gs p r cfg = Inr (gs', (parts, True, None, tc)) \<and>
    tile_of (pack gs') p = landing cfg (clamped gs p r cfg) \<and>
    p \<in> set (players_rolled_this_turn (pack gs')) \<and>
    hd parts = Line (msg_moved (clamped gs p r cfg)) \<and>
    (\<forall>tail_tile. rules_snakes cfg (clamped gs p r cfg) = Some tail_tile \<longrightarrow>
       Line (msg_snake tail_tile) \<in> set parts) \<and>
    (\<forall>top_tile. rules_snakes cfg (clamped gs p r cfg) = None \<and>
       rules_ladders cfg (clamped gs p r cfg) = Some top_tile \<longrightarrow>
       Line (msg_ladder top_tile) \<in> set parts)"
proof -
  from resolve_roll_tile [OF assms(2,3), of gs p r]
  obtain gs' rest tc where
    r: "resolve_roll gs p r cfg =
      Inr (gs', (Line (msg_moved (clamped gs p r cfg)) # redirection_lines cfg (clamped gs p r cfg) @ rest,
                True, None, tc))"
    and t: "tile_of (pack gs') p = landing cfg (clamped gs p r cfg)"
    and a: "p \<in> set (players_rolled_this_turn (pack gs'))"
    by blast
  let ?parts = "Line (msg_moved (clamped gs p r cfg)) # redirection_lines cfg (clamped gs p r cfg) @ rest"
  have "on_dice_rolled gs p r cfg = Inr (gs', (?parts, True, None, tc))"
    using assms(1) r by (simp add: on_dice_rolled_def)
  moreover have "hd ?parts = Line (msg_moved (clamped gs p r cfg))" by simp
  moreover have "\<forall>tail_tile. rules_snakes cfg (clamped gs p r cfg) = Some tail_tile \<longrightarrow>
       Line (msg_snake tail_tile) \<in> set ?parts"
    by (simp add: redirection_lines_def)
  moreover have "\<forall>top_tile. rules_snakes cfg (clamped gs p r cfg) = None \<and>
       rules_ladders cfg (clamped gs p r cfg) = Some top_tile \<longrightarrow>
       Line (msg_ladder top_tile) \<in> set ?parts"
    by (simp add: redirection_lines_def)
  ultimately show ?thesis using t a by blast
qed

theorem on_dice_rolled_moves_witness:
  "roll_rejection example_session 1 classic_board = None \<and>
   0 \<le> grid_cols classic_board \<and> grid_cols classic_board \<le> 1114047 \<and>
   clamped example_session 1 6 classic_board = 16 \<and>
   rules_snakes classic_board 16 = Some 6 \<and>
   (\<exists>gs' parts tc.
      on_dice_rolled example_session 1 6 classic_board = Inr (gs', (parts, True, None, tc)) \<and>
      tile_of (pack gs') 1 = 6 \<and> 1 \<in> set (players_rolled_this_turn (pack gs')) \<and>
      hd parts = Line (msg_moved 16) \<and> Line (msg_snake 6) \<in> set parts)"
proof -
  have e: "roll_rejection example_session 1 classic_board = None"
    by code_simp
  have lo: "0 \<le> grid_cols classic_board" and hi: "grid_cols classic_board \<le> 1114047"
    by (simp_all add: classic_board_def)
  have c: "clamped example_session 1 6 classic_board = 16"
    by code_simp
  have s: "rules_snakes classic_board 16 = Some 6"
    by (simp add: classic_board_def)
  have l: "landing classic_board 16 = 6"
    by (simp add: landing_def s)
  show ?thesis
    using on_dice_rolled_moves [OF e lo hi, of 6] e lo hi c s l by auto
qed

text \<open>
  C3 as stated fails: on the board of one row and 1114048 columns, participant 1 on tile
  1114047 is eligible and rolls 1; the tile is written, and the roll raises \<open>ValueError\<close>
  when the coordinate of tile 1114048 is asked for.
\<close>

theorem on_dice_rolled_raises:
  "roll_rejection wide_session 1 wide_board = None \<and>
   clamped wide_session 1 1 wide_board = 1114048 \<and>
   on_dice_rolled wide_session 1 1 wide_board = Inl ValueError"
  by code_simp







text \<open>
  C2, as the code has it. When every participant's tile is at or past the goal tile, there is
  at least one participant, and the session is not yet flagged as ended, then
  \<open>check_win_condition\<close> returns with the session ended, every participant has a recorded
  arrival turn, and the winners are exactly the participants whose recorded arrival turn is
  the least recorded one: participants tied on that turn all win, and a participant with a
  strictly larger turn does not.
\<close>

theorem check_win_condition_final_winners:
  assumes "all_at_goal gs cfg"
    and "tile_numbers (pack gs) \<noteq> []"
    and "\<not> game_ended (pack gs)"
  shows "\<exists>gs' msg. check_win_condition gs cfg = Inr (gs', msg, True) \<and> game_ended (pack gs') \<and>
      (\<forall>u \<in> fst ` set (tile_numbers (pack gs)). u \<in> fst ` set (goal_reached_turn (pack gs'))) \<and>
      (\<forall>u. u \<in> set (winners (pack gs')) \<longleftrightarrow>
         (\<exists>t. (u, t) \<in> set (goal_reached_turn (pack gs')) \<and>
              (\<forall>item \<in> set (goal_reached_turn (pack gs')). t \<le> snd item)))"
  using assms unfolding all_at_goal_def by (rule check_win_condition_final)

theorem check_win_condition_final_winners_witness:
  "all_at_goal photo_finish classic_board \<and> tile_numbers (pack photo_finish) \<noteq> [] \<and>
   \<not> game_ended (pack photo_finish) \<and>
   (\<exists>gs' msg. check_win_condition photo_finish classic_board = Inr (gs', msg, True) \<and>
      game_ended (pack gs') \<and> winners (pack gs') = [1, 2] \<and>
      goal_reached_turn (pack gs') = [(1, 3), (2, 3), (3, 5)])"
proof -
  have a: "all_at_goal photo_finish classic_board"
    by code_simp
  have b: "tile_numbers (pack photo_finish) \<noteq> []"
    by (simp add: photo_finish_def)
  have c: "\<not> game_ended (pack photo_finish)"
    by (simp add: photo_finish_def example_pack_def)
  from check_win_condition_final_winners [OF a b c]
  obtain gs' msg where r: "check_win_condition photo_finish classic_board = Inr (gs', msg, True)"
    and e: "game_ended (pack gs')"
    by blast
  have "map_option (winners \<circ> pack) (result_state (check_win_condition photo_finish classic_board)) =
      Some [1, 2]"
    by code_simp
  with r have w: "winners (pack gs') = [1, 2]"
    by (simp add: result_state_def)
  have "map_option (goal_reached_turn \<circ> pack)
      (result_state (check_win_condition photo_finish classic_board)) = Some [(1, 3), (2, 3), (3, 5)]"
    by code_simp
  with r have g: "goal_reached_turn (pack gs') = [(1, 3), (2, 3), (3, 5)]"
    by (simp add: result_state_def)
  show ?thesis
    using a b c r e w g by blast
qed

text \<open>
  C2 as stated fails. In a session already flagged as ended (a game master's \<open>!movetoken\<close>
  after the end calls \<open>check_win_condition\<close> again), every participant is at the goal,
  participant 1 arrived in turn 3 and participant 2 in turn 5, and the call leaves both in the
  winners. In a session without participants the call raises.
\<close>

theorem check_win_condition_after_end:
  "all_at_goal ended_session classic_board \<and>
   winners (pack ended_session) = [1] \<and>
   goal_reached_turn (pack ended_session) = [(1, 3), (2, 5)] \<and>
   map_option (winners \<circ> pack) (result_state (check_win_condition ended_session classic_board)) =
     Some [1, 2] \<and>
   map_option (goal_reached_turn \<circ> pack)
     (result_state (check_win_condition ended_session classic_board)) = Some [(1, 3), (2, 5)] \<and>
   all_at_goal empty_session classic_board \<and>
   check_win_condition empty_session classic_board = Inl UnboundLocalError"
  by code_simp

section \<open>Forfeiting\<close>

lemma list_all_update:
  assumes "list_all P al" "P (k, v)"
  shows "list_all P (AList.update k v al)"
  using assms by (induction al) auto

lemma update_position_pack:
  assumes "update_position uid t cfg gs = Inr gs'"
  shows "pack gs' = pack gs"
  using assms
  by (auto simp add: update_position_def set_grid_position_def split: sum.splits option.splits if_splits)

lemma apply_redirection_pack:
  assumes "apply_redirection uid tile cfg gs = Inr (gs', parts, final)"
  shows "pack gs' = pack gs \<or>
    pack gs' = (pack gs)\<lparr>tile_numbers := AList.update uid final (tile_numbers (pack gs))\<rparr>"
  using assms
  by (auto simp add: apply_redirection_def set_tile_def
      split: option.splits sum.splits dest!: update_position_pack)

lemma resolve_roll_pack:
  assumes "resolve_roll gs q r cfg = Inr (gs', res)"
  shows "\<exists>gs3 gs4 m e tiles.
    check_win_condition gs3 cfg = Inr (gs4, m, e) \<and> pack gs' = (pack gs4)\<lparr>game_ended := e\<rparr> \<and>
    winners (pack gs3) = winners (pack gs) \<and>
    goal_reached_turn (pack gs3) = goal_reached_turn (pack gs) \<and>
    forfeited_players (pack gs3) = forfeited_players (pack gs) \<and>
    (tile_numbers (pack gs3) = AList.update q tiles (tile_numbers (pack gs)) \<or>
     (\<exists>tiles'. tile_numbers (pack gs3) = AList.update q tiles (AList.update q tiles' (tile_numbers (pack gs)))))"
proof -
  let ?w = "rules_win_tile cfg"
  let ?l = "if tile_of (pack gs) q + r \<ge> ?w then ?w else tile_of (pack gs) q + r"
  from assms obtain gs1 where 1: "update_position q ?l cfg (set_tile q ?l gs) = Inr gs1"
    by (auto simp add: resolve_roll_def Let_def split: sum.splits)
  from assms 1 obtain gs2 parts final where 2: "apply_redirection q ?l cfg gs1 = Inr (gs2, parts, final)"
    by (auto simp add: resolve_roll_def Let_def split: sum.splits)
  let ?rolled = "players_rolled_this_turn (pack gs2)"
  let ?gs3 = "if q \<in> set ?rolled then gs2
              else gs2\<lparr>pack := (pack gs2)\<lparr>players_rolled_this_turn := ?rolled @ [q]\<rparr>\<rparr>"
  from assms 1 2 obtain gs4 m e where 4: "check_win_condition ?gs3 cfg = Inr (gs4, m, e)"
    and 5: "gs' = gs4\<lparr>pack := (pack gs4)\<lparr>game_ended := e\<rparr>\<rparr>"
    by (auto simp add: resolve_roll_def Let_def split: sum.splits)
  have p1: "pack gs1 = (pack gs)\<lparr>tile_numbers := AList.update q ?l (tile_numbers (pack gs))\<rparr>"
    using update_position_pack [OF 1] by (simp add: set_tile_def)
  from apply_redirection_pack [OF 2]
  have p2: "pack gs2 = pack gs1 \<or>
      pack gs2 = (pack gs1)\<lparr>tile_numbers := AList.update q final (tile_numbers (pack gs1))\<rparr>" .
  have w: "winners (pack ?gs3) = winners (pack gs)"
    "goal_reached_turn (pack ?gs3) = goal_reached_turn (pack gs)"
    "forfeited_players (pack ?gs3) = forfeited_players (pack gs)"
    using p1 p2 by auto
  from p2 show ?thesis
  proof
    assume "pack gs2 = pack gs1"
    then have "tile_numbers (pack ?gs3) = AList.update q ?l (tile_numbers (pack gs))"
      using p1 by simp
    with 4 5 w show ?thesis
      by (intro exI [of _ ?gs3] exI [of _ gs4] exI [of _ m] exI [of _ e] exI [of _ ?l]) simp
  next
    assume "pack gs2 = (pack gs1)\<lparr>tile_numbers := AList.update q final (tile_numbers (pack gs1))\<rparr>"
    then have "tile_numbers (pack ?gs3) =
        AList.update q final (AList.update q ?l (tile_numbers (pack gs)))"
      using p1 by simp
    with 4 5 w show ?thesis
      by (intro exI [of _ ?gs3] exI [of _ gs4] exI [of _ m] exI [of _ e] exI [of _ final]) auto
  qed
qed

lemma stays_out_roll:
  assumes s: "stays_out p cfg g" and r: "on_dice_rolled g q r cfg = Inr (g', res)"
  shows "stays_out p cfg g'"
proof (cases "roll_rejection g q cfg")
  case (Some rejected)
  with r have "g' = g" by (simp add: on_dice_rolled_def)
  with s show ?thesis by simp
next
  case None
  have qp: "q \<noteq> p"
  proof
    assume "q = p"
    with s have "q \<in> set (forfeited_players (pack g))" by (simp add: stays_out_def)
    with None show False
      by (simp add: roll_rejection_def Let_def split: if_splits)
  qed
  from None r have "resolve_roll g q r cfg = Inr (g', res)"
    by (simp add: on_dice_rolled_def)
  from resolve_roll_pack [OF this]
  obtain gs3 gs4 m e tiles where w: "check_win_condition gs3 cfg = Inr (gs4, m, e)"
    and p': "pack g' = (pack gs4)\<lparr>game_ended := e\<rparr>"
    and k: "winners (pack gs3) = winners (pack g)"
      "goal_reached_turn (pack gs3) = goal_reached_turn (pack g)"
      "forfeited_players (pack gs3) = forfeited_players (pack g)"
    and t: "tile_numbers (pack gs3) = AList.update q tiles (tile_numbers (pack g)) \<or>
     (\<exists>tiles'. tile_numbers (pack gs3) = AList.update q tiles (AList.update q tiles' (tile_numbers (pack g))))"
    by blast
  let ?P = "\<lambda>item. fst item \<noteq> p \<or> snd item < rules_win_tile cfg"
  have a0: "list_all ?P (tile_numbers (pack g))"
    using s by (simp add: stays_out_def)
  have a: "list_all ?P (tile_numbers (pack gs3))"
    using t qp a0 by (auto intro!: list_all_update)
  then have b: "\<forall>t. (p, t) \<in> set (tile_numbers (pack gs3)) \<longrightarrow> t < rules_win_tile cfg"
    by (auto simp add: list_all_iff)
  from s k have c: "p \<notin> set (winners (pack gs3))" "\<not> has_key (goal_reached_turn (pack gs3)) p"
    by (simp_all add: stays_out_def)
  from check_win_condition_below_goal [OF w c b]
  have d: "p \<notin> set (winners (pack gs4))" "\<not> has_key (goal_reached_turn (pack gs4)) p"
    by simp_all
  from check_win_condition_frame [OF w]
  have f: "tile_numbers (pack gs4) = tile_numbers (pack gs3)"
    "forfeited_players (pack gs4) = forfeited_players (pack gs3)"
    by simp_all
  show ?thesis
    using s a d f k by (simp add: stays_out_def p')
qed

lemma stays_out_advance_turn: "stays_out p cfg g \<Longrightarrow> stays_out p cfg (advance_turn g)"
  by (simp add: stays_out_def advance_turn_def)





section \<open>Swap coordinator\<close>

lemma swap_tile_numbers_frame:
  "players (swap_tile_numbers g a b) = players g"
  "player_states (swap_tile_numbers g a b) = player_states g"
  "turn_order (pack (swap_tile_numbers g a b)) = turn_order (pack g)"
  "player_numbers (pack (swap_tile_numbers g a b)) = player_numbers (pack g)"
  by (simp_all add: swap_tile_numbers_def split: option.splits)

lemma swap_pack_effects_frame:
  "players (swap_pack_effects g a b c d) = players g"
  "player_states (swap_pack_effects g a b c d) = player_states g"
  "turn_order (pack (swap_pack_effects g a b c d)) = turn_order (pack g)"
  "player_numbers (pack (swap_pack_effects g a b c d)) = player_numbers (pack g)"
  "tile_numbers (pack (swap_pack_effects g a b c d)) = tile_numbers (pack (swap_tile_numbers g a b))"
  by (simp_all add: swap_pack_effects_def on_character_assigned_def swap_pack_player_metadata_def
      swap_tile_numbers_frame)

lemma swap_tile_numbers_players:
  "tile_numbers (pack (swap_tile_numbers (g\<lparr>players := P, player_states := S\<rparr>) a b)) =
   tile_numbers (pack (swap_tile_numbers g a b))"
  by (simp add: swap_tile_numbers_def split: option.splits)

lemma swap_tile_numbers_map:
  assumes "a \<noteq> b"
  shows "map_of (tile_numbers (pack (swap_tile_numbers g a b))) =
    (case (map_of (tile_numbers (pack g)) a, map_of (tile_numbers (pack g)) b) of
       (Some ta, Some tb) \<Rightarrow> (map_of (tile_numbers (pack g)))(a \<mapsto> tb, b \<mapsto> ta)
     | _ \<Rightarrow> map_of (tile_numbers (pack g)))"
  by (auto simp add: swap_tile_numbers_def update_conv' split: option.splits)

lemma swap_tiles_back:
  assumes "a \<noteq> b"
    and "map_of (tile_numbers (pack g')) = map_of (tile_numbers (pack (swap_tile_numbers g a b)))"
  shows "map_of (tile_numbers (pack (swap_tile_numbers g' a b))) = map_of (tile_numbers (pack g))"
proof -
  let ?T = "map_of (tile_numbers (pack g))"
  show ?thesis
  proof (cases "?T a")
    case None
    then show ?thesis
      using assms by (simp add: swap_tile_numbers_map)
  next
    case (Some ta)
    note a = Some
    show ?thesis
    proof (cases "?T b")
      case None
      with a show ?thesis
        using assms by (simp add: swap_tile_numbers_map)
    next
      case (Some tb)
      from assms have "b \<noteq> a" by simp
      with Some a assms show ?thesis
        by (auto simp add: swap_tile_numbers_map fun_eq_iff)
    qed
  qed
qed

lemma command_swap_unfold:
  assumes "map_of (players gs) id1 = Some player1" "map_of (players gs) id2 = Some player2"
    and "map_of (player_states gs) id1 = Some state1" "map_of (player_states gs) id2 = Some state2"
  shows "command_swap gs id1 id2 =
    swap_pack_effects
      (gs\<lparr>players :=
            AList.update id2
              (player2\<lparr>character_name := character_name player1, grid_position := grid_position player1,
                       background_id := background_id player1, outfit_name := outfit_name player1\<rparr>)
              (AList.update id1
                (player1\<lparr>character_name := character_name player2, grid_position := grid_position player2,
                         background_id := background_id player2, outfit_name := outfit_name player2\<rparr>)
                (players gs)),
          player_states :=
            AList.update id2 (exchange_character state2 state1 (id_or (form_owner_user_id state1) id1))
              (AList.update id1 (exchange_character state1 state2 (id_or (form_owner_user_id state2) id2))
                (player_states gs))\<rparr>)
      id1 id2 (character_name player1) (character_name player2)"
  using assms by (simp add: command_swap_def swap_pack_effects_def Let_def)

lemma revert_swap_direct_unfold:
  assumes "map_of (players gs) id1 = Some player1" "map_of (players gs) id2 = Some player2"
    and "map_of (player_states gs) id1 = Some state1" "map_of (player_states gs) id2 = Some state2"
  shows "revert_swap_direct gs id1 id2 =
    swap_pack_effects
      (gs\<lparr>players :=
            AList.update id2
              (player2\<lparr>character_name := character_name player1, grid_position := grid_position player1,
                       background_id := background_id player1\<rparr>)
              (AList.update id1
                (player1\<lparr>character_name := character_name player2, grid_position := grid_position player2,
                         background_id := background_id player2\<rparr>)
                (players gs)),
          player_states :=
            AList.update id2 (exchange_character state2 state1 id2)
              (AList.update id1 (exchange_character state1 state2 id1) (player_states gs))\<rparr>)
      id1 id2 (character_name player1) (character_name player2)"
  using assms by (simp add: revert_swap_direct_def swap_pack_effects_def Let_def)

lemma swap_then_revert:
  assumes ne: "id1 \<noteq> id2" and nz: "id1 \<noteq> 0" "id2 \<noteq> 0"
    and p1: "map_of (players gs) id1 = Some player1"
    and p2: "map_of (players gs) id2 = Some player2"
    and s1: "map_of (player_states gs) id1 = Some state1"
    and s2: "map_of (player_states gs) id2 = Some state2"
    and o1: "id_or (form_owner_user_id state1) id1 = id1"
    and o2: "id_or (form_owner_user_id state2) id2 = id2"
  shows "build_swap_chain (command_swap gs id1 id2) id1 = [(id1, id2)]"
    and "map_of (players (revert_swap_chain (command_swap gs id1 id2) [(id1, id2)])) id1 =
           Some (player1\<lparr>outfit_name := outfit_name player2\<rparr>)"
    and "map_of (players (revert_swap_chain (command_swap gs id1 id2) [(id1, id2)])) id2 =
           Some (player2\<lparr>outfit_name := outfit_name player1\<rparr>)"
    and "map_of (tile_numbers (pack (revert_swap_chain (command_swap gs id1 id2) [(id1, id2)]))) =
           map_of (tile_numbers (pack gs))"
    and "turn_order (pack (revert_swap_chain (command_swap gs id1 id2) [(id1, id2)])) =
           turn_order (pack gs)"
    and "player_numbers (pack (revert_swap_chain (command_swap gs id1 id2) [(id1, id2)])) =
           player_numbers (pack gs)"
    and "map_option form_owner_user_id
           (map_of (player_states (revert_swap_chain (command_swap gs id1 id2) [(id1, id2)])) id1) =
           Some (Some id1)"
    and "map_option form_owner_user_id
           (map_of (player_states (revert_swap_chain (command_swap gs id1 id2) [(id1, id2)])) id2) =
           Some (Some id2)"
    and "map_option state_character_name
           (map_of (player_states (revert_swap_chain (command_swap gs id1 id2) [(id1, id2)])) id1) =
           Some (state_character_name state1)"
    and "map_option state_character_name
           (map_of (player_states (revert_swap_chain (command_swap gs id1 id2) [(id1, id2)])) id2) =
           Some (state_character_name state2)"
proof -
  have ne': "id2 \<noteq> id1" using ne by simp
  let ?sw = "command_swap gs id1 id2"
  let ?q1 = "player1\<lparr>character_name := character_name player2, grid_position := grid_position player2,
                    background_id := background_id player2, outfit_name := outfit_name player2\<rparr>"
  let ?q2 = "player2\<lparr>character_name := character_name player1, grid_position := grid_position player1,
                    background_id := background_id player1, outfit_name := outfit_name player1\<rparr>"
  let ?n1 = "exchange_character state1 state2 id2"
  let ?n2 = "exchange_character state2 state1 id1"
  note sw = command_swap_unfold [OF p1 p2 s1 s2, unfolded o1 o2]
  have pl: "map_of (players ?sw) id1 = Some ?q1" "map_of (players ?sw) id2 = Some ?q2"
    unfolding sw using ne ne' by (simp_all add: swap_pack_effects_frame update_conv')
  have st: "map_of (player_states ?sw) id1 = Some ?n1" "map_of (player_states ?sw) id2 = Some ?n2"
    unfolding sw using ne ne' by (simp_all add: swap_pack_effects_frame update_conv')
  have f1: "form_owner_user_id ?n1 = Some id2" "form_owner_user_id ?n2 = Some id1"
    by (simp_all add: exchange_character_def)
  show chain: "build_swap_chain ?sw id1 = [(id1, id2)]"
    unfolding build_swap_chain_def
    apply (subst build_swap_chain_loop.simps)
    apply (simp add: nz st f1 ne ne')
    apply (subst build_swap_chain_loop.simps)
    apply (simp add: nz st f1 ne ne')
    apply (subst build_swap_chain_loop.simps)
    apply (simp add: nz)
    done
  let ?rv = "revert_swap_chain ?sw [(id1, id2)]"
  have rv: "?rv = revert_swap_direct ?sw id1 id2"
    by (simp add: revert_swap_chain_def)
  note un = revert_swap_direct_unfold [OF pl st]
  show "map_of (players ?rv) id1 = Some (player1\<lparr>outfit_name := outfit_name player2\<rparr>)"
    unfolding rv un using ne ne' by (simp add: swap_pack_effects_frame update_conv')
  show "map_of (players ?rv) id2 = Some (player2\<lparr>outfit_name := outfit_name player1\<rparr>)"
    unfolding rv un using ne ne' by (simp add: swap_pack_effects_frame update_conv')
  show "turn_order (pack ?rv) = turn_order (pack gs)"
    unfolding rv un by (simp add: swap_pack_effects_frame sw)
  show "player_numbers (pack ?rv) = player_numbers (pack gs)"
    unfolding rv un by (simp add: swap_pack_effects_frame sw)
  show "map_option form_owner_user_id (map_of (player_states ?rv) id1) = Some (Some id1)"
    unfolding rv un using ne ne'
    by (simp add: swap_pack_effects_frame update_conv' exchange_character_def)
  show "map_option form_owner_user_id (map_of (player_states ?rv) id2) = Some (Some id2)"
    unfolding rv un using ne ne'
    by (simp add: swap_pack_effects_frame update_conv' exchange_character_def)
  show "map_option state_character_name (map_of (player_states ?rv) id1) =
      Some (state_character_name state1)"
    unfolding rv un using ne ne'
    by (simp add: swap_pack_effects_frame update_conv' exchange_character_def)
  show "map_option state_character_name (map_of (player_states ?rv) id2) =
      Some (state_character_name state2)"
    unfolding rv un using ne ne'
    by (simp add: swap_pack_effects_frame update_conv' exchange_character_def)
  show "map_of (tile_numbers (pack ?rv)) = map_of (tile_numbers (pack gs))"
  proof -
    let ?g1 = "gs\<lparr>players := AList.update id2 ?q2 (AList.update id1 ?q1 (players gs)),
                   player_states := AList.update id2 ?n2 (AList.update id1 ?n1 (player_states gs))\<rparr>"
    have t1: "tile_numbers (pack ?sw) = tile_numbers (pack (swap_tile_numbers gs id1 id2))"
      unfolding sw by (simp add: swap_pack_effects_frame swap_tile_numbers_players)
    have "tile_numbers (pack ?rv) = tile_numbers (pack (swap_tile_numbers ?sw id1 id2))"
      unfolding rv un by (simp add: swap_pack_effects_frame swap_tile_numbers_players)
    moreover have "map_of (tile_numbers (pack (swap_tile_numbers ?sw id1 id2))) =
        map_of (tile_numbers (pack gs))"
      using ne by (rule swap_tiles_back) (simp add: t1)
    ultimately show ?thesis by simp
  qed
qed

text \<open>
  C6 at a concrete session: participants 1 and 2, neither swapped before, wear the outfits
  \<open>red\<close> and \<open>blue\<close>. After \<open>command_swap\<close> the chain built from participant 1 is the single
  pair (1, 2); reverting it gives participant 1 the character \<open>Ann\<close> back, but the outfits
  stay exchanged: 1 wears \<open>blue\<close> and 2 wears \<open>red\<close>.
\<close>

theorem revert_leaves_outfits_exchanged:
  "map_option outfit_name (map_of (players swap_session) 1) = Some (Some ''red'') \<and>
   map_option outfit_name (map_of (players swap_session) 2) = Some (Some ''blue'') \<and>
   build_swap_chain (command_swap swap_session 1 2) 1 = [(1, 2)] \<and>
   map_option outfit_name
     (map_of (players (revert_swap_chain (command_swap swap_session 1 2)
        (build_swap_chain (command_swap swap_session 1 2) 1))) 1) = Some (Some ''blue'') \<and>
   map_option outfit_name
     (map_of (players (revert_swap_chain (command_swap swap_session 1 2)
        (build_swap_chain (command_swap swap_session 1 2) 1))) 2) = Some (Some ''red'') \<and>
   map_option character_name
     (map_of (players (revert_swap_chain (command_swap swap_session 1 2)
        (build_swap_chain (command_swap swap_session 1 2) 1))) 1) = Some (Some ''Ann'')"
  by code_simp

section \<open>Command serializer\<close>









lemma arrive_uninterrupted:
  "arrive lowercase (AtLockCheck m) s =
     (case lock_check_begin m False s of None \<Rightarrow> s | Some task \<Rightarrow> complete_capture task s)"
  "arrive lowercase (AtCache m) s =
     (case snd (cache_begin lowercase m (message_channel m) None s) of
        None \<Rightarrow> fst (cache_begin lowercase m (message_channel m) None s)
      | Some task \<Rightarrow> complete_capture task (fst (cache_begin lowercase m (message_channel m) None s)))"
  by (simp_all add: arrive_def handle_message_lock_check_def lock_check_begin_def
      cache_and_delete_message_def cache_begin_def complete_capture_def Let_def)

lemma is_invalid_command_ascii:
  assumes "list_all (\<lambda>c. c < 128) (message_content m)"
  shows "is_invalid_command lowercase m = is_invalid_command lowercase' m"
proof -
  have s: "list_all (\<lambda>c. c < 128) (strip (message_content m))"
    using assms
    by (auto simp add: strip_def list_all_iff dest!: set_dropWhileD)
  have "py_lower lowercase t = py_lower lowercase' t" if "list_all (\<lambda>c. c < 128) t" for t
    using that by (auto simp add: py_lower_def list_all_length intro!: arg_cong [where f = concat])
  with s show ?thesis
    by (simp add: is_invalid_command_def Let_def)
qed

lemma py_lower_bang:
  assumes "take 1 t = ascii ''!''"
  shows "take 1 (py_lower lowercase t) = ascii ''!''"
proof -
  from assms obtain rest where t: "t = 33 # rest"
    by (cases t) (simp_all add: ascii_def)
  have "[0..<length t] = 0 # [1..<length t]"
    unfolding t by (simp add: upt_rec)
  then show ?thesis
    by (simp add: py_lower_def t ascii_lower_def ascii_def)
qed

lemma lowered_command_has_word:
  assumes "take 1 t = ascii ''!''"
  shows "first_word (py_lower lowercase t) \<noteq> []"
proof -
  have "take 1 (py_lower lowercase t) = [33]"
    using py_lower_bang [OF assms, of lowercase] by (simp add: ascii_def)
  then obtain rest where "py_lower lowercase t = 33 # rest"
    by (cases "py_lower lowercase t") simp_all
  then show ?thesis
    by (simp add: first_word_def is_space_def)
qed











































end
